theory Spec2Isabelle
  imports Complex_Main
begin

section \<open>Python values\<close>

text \<open>
  The library is dynamically typed: several entry points dispatch on the run-time type of
  an argument with \<open>isinstance\<close>. A value is therefore a tagged union. \<open>'o\<close> is the type of
  the instances of the class the entry point knows (\<open>BlockingRuleCreator\<close>,
  \<open>ComparisonLevelCreator\<close>); \<open>PyOther c\<close> is an instance of any other class, named \<open>c\<close>.
  Numbers keep Python's distinction between \<open>int\<close> and \<open>float\<close>; no arithmetic is done on
  them in the modelled code, only truth tests and formatting.
\<close>

datatype pynum = PyInt int | PyFloat real

datatype 'o pyval =
    PyNone
  | PyBool bool
  | PyNum pynum
  | PyStr string
  | PyList "'o pyval list"
  | PyDict "(string \<times> 'o pyval) list"
  | PyObj 'o
  | PyOther string

text \<open>The run-time type tests: \<open>isinstance(v, dict)\<close>, \<open>isinstance(v, str)\<close> and
  \<open>isinstance(v, C)\<close> for the class \<open>C\<close> of \<open>'o\<close>.\<close>

fun is_dict :: "'o pyval \<Rightarrow> bool" where
  "is_dict (PyDict kw) = True"
| "is_dict v = False"

fun is_str :: "'o pyval \<Rightarrow> bool" where
  "is_str (PyStr s) = True"
| "is_str v = False"

fun is_obj :: "'o pyval \<Rightarrow> bool" where
  "is_obj (PyObj x) = True"
| "is_obj v = False"

text \<open>
  The message of an exception the source raises is an f-string. It is kept as the list of
  its pieces, the replacement fields not yet rendered, since the rendering is Python's own:
  \<open>Lit\<close> is literal text, \<open>Field_str v\<close> the field \<open>{v}\<close>, \<open>Field_type v\<close> the field
  \<open>{type(v)}\<close> and \<open>Field_repr v\<close> the \<open>repr\<close> of \<open>v\<close>.
\<close>

datatype 'o fstring_part =
    Lit string
  | Field_str "'o pyval"
  | Field_type "'o pyval"
  | Field_repr "'o pyval"

text \<open>The exceptions the modelled code raises: \<open>ValueError\<close> with its message,
  \<open>AttributeError\<close> and \<open>KeyError\<close> with the attribute or key that is missing.\<close>

datatype 'o error = ValueError "'o fstring_part list" | AttributeError string | KeyError string

text \<open>Truth value of a number (\<open>if x:\<close>): zero is false.\<close>

fun truthy_num :: "pynum \<Rightarrow> bool" where
  "truthy_num (PyInt i) = (i \<noteq> 0)"
| "truthy_num (PyFloat r) = (r \<noteq> 0)"

text \<open>\<open>sep.join(xs)\<close>.\<close>

fun join :: "string \<Rightarrow> string list \<Rightarrow> string" where
  "join sep [] = []"
| "join sep [x] = x"
| "join sep (x # y # ys) = x @ sep @ join sep (y # ys)"

text \<open>An argument annotated \<open>Union[T, List[T]]\<close>: one value or a list of them.\<close>

datatype 'a one_or_many = One 'a | Many "'a list"

text \<open>
  Modelled from the spec: \<open>ensure_is_iterable\<close> of \<open>splink.misc\<close> is not under src/. From
  the annotations of the arguments it is applied to and the comment at its call sites
  ("unpack it to a list so we can repeat iteration if needed"), it wraps a single value
  into a one-element list and leaves a list as it is.
\<close>

fun ensure_is_iterable :: "'a one_or_many \<Rightarrow> 'a list" where
  "ensure_is_iterable (One a) = [a]"
| "ensure_is_iterable (Many xs) = xs"

text \<open>Truth value of such an argument before it is unpacked (\<open>if km_thresholds:\<close>):
  a number is true unless zero, a list unless empty.\<close>

fun truthy_arg :: "pynum one_or_many \<Rightarrow> bool" where
  "truthy_arg (One a) = truthy_num a"
| "truthy_arg (Many xs) = (xs \<noteq> [])"

section \<open>blocking\_rule\_creator\_utils.py\<close>

text \<open>
  Modelled from the spec: \<open>CustomRule\<close> of \<open>blocking_rule_library\<close> is not under src/.
  A structured rule object is recorded as the constructor call that made it: the
  positional arguments and the keyword arguments.
\<close>

datatype BlockingRuleCreator =
  CustomRule "BlockingRuleCreator pyval list" "(string \<times> BlockingRuleCreator pyval) list"

text \<open>
  \<open>to_blocking_rule_creator\<close>: a dict is expanded into keyword arguments of \<open>CustomRule\<close>,
  a string is its one positional argument, anything else falls through to the last line
  and is returned as it is. The function has no \<open>raise\<close>.
\<close>

fun to_blocking_rule_creator ::
  "BlockingRuleCreator pyval \<Rightarrow> BlockingRuleCreator error + BlockingRuleCreator pyval" where
  "to_blocking_rule_creator (PyDict kw) = Inr (PyObj (CustomRule [] kw))"
| "to_blocking_rule_creator (PyStr s) = Inr (PyObj (CustomRule [PyStr s] []))"
| "to_blocking_rule_creator blocking_rule_creator = Inr blocking_rule_creator"

section \<open>Column expressions and comparison levels\<close>

text \<open>
  Modelled from the spec: \<open>column_expression.py\<close> is not under src/. The spec (3, 4.1)
  describes a column expression as an immutable value holding a base column name and an
  ordered list of transformation steps, a transform returning a new expression with the
  step appended. Only the two transforms the modelled code calls are listed.
\<close>

datatype transform = Regex_extract string | Try_parse_date "string option"

datatype ColumnExpression = ColumnExpression (raw_name: string) (transforms: "transform list")

definition regex_extract :: "ColumnExpression \<Rightarrow> string \<Rightarrow> ColumnExpression" where
  "regex_extract c pattern = ColumnExpression (raw_name c) (transforms c @ [Regex_extract pattern])"

definition try_parse_date :: "ColumnExpression \<Rightarrow> string option \<Rightarrow> ColumnExpression" where
  "try_parse_date c date_format =
     ColumnExpression (raw_name c) (transforms c @ [Try_parse_date date_format])"

text \<open>An argument annotated \<open>Union[str, ColumnExpression]\<close>, and its conversion.\<close>

datatype col_name = ColStr string | ColExpr ColumnExpression

fun instantiate_if_str :: "col_name \<Rightarrow> ColumnExpression" where
  "instantiate_if_str (ColStr s) = ColumnExpression s []"
| "instantiate_if_str (ColExpr c) = c"

text \<open>
  Modelled from the spec: \<open>comparison_level_library.py\<close> (\<open>cll\<close>) is not under src/. The
  spec (3) describes a comparison level as a tagged variant; each variant below is the
  \<open>cll\<close> class of the same name and holds the arguments of the constructor call that made
  it, in the order of the call. A keyword argument that a call may leave out is an option,
  \<open>None\<close> when it is left out (for \<open>valid_string_pattern\<close> also when Python's \<open>None\<close> is
  passed, which the source comments as "will ignore"). \<open>CustomLevel\<close> holds its keyword
  arguments as given, \<open>And\<close> its sub-levels. What the constructors themselves check is
  outside src/ and is not modelled.
\<close>

datatype ComparisonLevelCreator =
    NullLevel ColumnExpression "string option" "bool option"
  | ExactMatchLevel ColumnExpression "bool option"
  | LevenshteinLevel ColumnExpression pynum
  | DamerauLevenshteinLevel ColumnExpression pynum
  | JaroLevel ColumnExpression pynum
  | JaroWinklerLevel ColumnExpression pynum
  | DatediffLevel ColumnExpression pynum string
  | DistanceInKMLevel "ColumnExpression option" "ColumnExpression option" pynum
  | CustomLevel "(string \<times> ComparisonLevelCreator pyval) list"
  | And "ComparisonLevelCreator list"
  | ElseLevel

text \<open>A list comprehension whose element expression may raise: the first exception ends it.\<close>

fun comprehension :: "('a \<Rightarrow> 'e + 'b) \<Rightarrow> 'a list \<Rightarrow> 'e + 'b list" where
  "comprehension f [] = Inr []"
| "comprehension f (x # xs) =
     (case f x of
        Inl e \<Rightarrow> Inl e
      | Inr y \<Rightarrow> (case comprehension f xs of Inl e \<Rightarrow> Inl e | Inr ys \<Rightarrow> Inr (y # ys)))"

section \<open>comparison\_library.py\<close>

text \<open>
  A class is a record of the attributes its constructor sets, \<open>C_init\<close> is \<open>C.__init__\<close> and
  \<open>C_m\<close> the method \<open>m\<close>, taking \<open>self\<close>. A name that is also the name of an attribute is
  written with a prime where it is an argument or a local variable.
\<close>

subsection \<open>CustomComparison\<close>

record CustomComparison =
  output_column_name :: string
  comparison_levels :: "ComparisonLevelCreator pyval list"
  description :: "string option"

definition CustomComparison_init ::
  "string \<Rightarrow> ComparisonLevelCreator pyval list \<Rightarrow> string option \<Rightarrow> CustomComparison" where
  "CustomComparison_init output_column_name' comparison_levels' description' =
     \<lparr>CustomComparison.output_column_name = output_column_name',
      CustomComparison.comparison_levels = comparison_levels',
      CustomComparison.description = description'\<rparr>"

text \<open>\<open>_convert_to_creator\<close>: the message is the f-string of the source, in its pieces.\<close>

definition convert_to_creator_message ::
  "ComparisonLevelCreator pyval \<Rightarrow> ComparisonLevelCreator fstring_part list" where
  "convert_to_creator_message cl =
     [Lit ''`comparison_levels` entries must be `dict` or `ComparisonLevelCreator, '',
      Lit ''but found type '', Field_type cl, Lit '' for entry '', Field_str cl]"

fun convert_to_creator ::
  "ComparisonLevelCreator pyval \<Rightarrow> ComparisonLevelCreator error + ComparisonLevelCreator" where
  "convert_to_creator (PyObj cl) = Inr cl"
| "convert_to_creator (PyDict cl) = Inr (CustomLevel cl)"
| "convert_to_creator cl = Inl (ValueError (convert_to_creator_message cl))"

definition CustomComparison_create_comparison_levels ::
  "CustomComparison \<Rightarrow> ComparisonLevelCreator error + ComparisonLevelCreator list" where
  "CustomComparison_create_comparison_levels self =
     comprehension convert_to_creator (CustomComparison.comparison_levels self)"

subsection \<open>ExactMatch\<close>

text \<open>
  Modelled from the spec: \<open>ComparisonCreator.__init__\<close> (\<open>comparison_creator.py\<close>) is not
  under src/. From its uses in src/ it stores the column it is given as the attribute
  \<open>col_expression\<close> (a string turned into a column expression), or, given a dict of
  columns, stores them by key as \<open>col_expressions\<close>. It is the last statement of every
  constructor; a record has all its fields from the start, so where a constructor builds
  \<open>self\<close> in steps the field is filled in at the first of them.
\<close>

record ExactMatch =
  term_frequency_adjustments :: bool
  col_expression :: ColumnExpression

definition ExactMatch_init :: "col_name \<Rightarrow> bool \<Rightarrow> ExactMatch" where
  "ExactMatch_init col_name term_frequency_adjustments' =
     \<lparr>ExactMatch.term_frequency_adjustments = term_frequency_adjustments',
      ExactMatch.col_expression = instantiate_if_str col_name\<rparr>"

definition ExactMatch_create_comparison_levels :: "ExactMatch \<Rightarrow> ComparisonLevelCreator list" where
  "ExactMatch_create_comparison_levels self =
     [NullLevel (ExactMatch.col_expression self) None None,
      ExactMatchLevel (ExactMatch.col_expression self)
        (Some (ExactMatch.term_frequency_adjustments self)),
      ElseLevel]"

subsection \<open>LevenshteinAtThresholds\<close>

record LevenshteinAtThresholds =
  thresholds :: "pynum list"
  col_expression :: ColumnExpression

definition LevenshteinAtThresholds_init ::
  "col_name \<Rightarrow> pynum one_or_many \<Rightarrow> LevenshteinAtThresholds" where
  "LevenshteinAtThresholds_init col_name distance_threshold_or_thresholds =
     (let thresholds_as_iterable = ensure_is_iterable distance_threshold_or_thresholds
      in \<lparr>LevenshteinAtThresholds.thresholds = thresholds_as_iterable,
          LevenshteinAtThresholds.col_expression = instantiate_if_str col_name\<rparr>)"

definition LevenshteinAtThresholds_create_comparison_levels ::
  "LevenshteinAtThresholds \<Rightarrow> ComparisonLevelCreator list" where
  "LevenshteinAtThresholds_create_comparison_levels self =
     [NullLevel (LevenshteinAtThresholds.col_expression self) None None,
      ExactMatchLevel (LevenshteinAtThresholds.col_expression self) None]
     @ map (\<lambda>threshold. LevenshteinLevel (LevenshteinAtThresholds.col_expression self) threshold)
         (LevenshteinAtThresholds.thresholds self)
     @ [ElseLevel]"

subsection \<open>DatediffAtThresholds\<close>

text \<open>The arguments of the constructor after \<open>col_name\<close>, all keyword-only.
  \<open>date_metrics\<close> and \<open>date_thresholds\<close> have no default.\<close>

record DatediffAtThresholds_kwargs =
  date_metrics :: "string one_or_many"
  date_thresholds :: "pynum one_or_many"
  cast_strings_to_dates :: bool
  date_format :: "string option"
  term_frequency_adjustments :: bool
  invalid_dates_as_null :: bool

definition DatediffAtThresholds_defaults ::
  "string one_or_many \<Rightarrow> pynum one_or_many \<Rightarrow> DatediffAtThresholds_kwargs" where
  "DatediffAtThresholds_defaults date_metrics' date_thresholds' =
     \<lparr>DatediffAtThresholds_kwargs.date_metrics = date_metrics',
      DatediffAtThresholds_kwargs.date_thresholds = date_thresholds',
      DatediffAtThresholds_kwargs.cast_strings_to_dates = False,
      DatediffAtThresholds_kwargs.date_format = None,
      DatediffAtThresholds_kwargs.term_frequency_adjustments = False,
      DatediffAtThresholds_kwargs.invalid_dates_as_null = True\<rparr>"

record DatediffAtThresholds =
  date_metrics :: "string list"
  date_thresholds :: "pynum list"
  cast_strings_to_dates :: bool
  date_format :: "string option"
  term_frequency_adjustments :: bool
  invalid_dates_as_null :: bool
  col_expression :: ColumnExpression

definition DatediffAtThresholds_init ::
  "col_name \<Rightarrow> DatediffAtThresholds_kwargs \<Rightarrow> DatediffAtThresholds" where
  "DatediffAtThresholds_init col_name kw =
     (let date_metrics_as_iterable =
            ensure_is_iterable (DatediffAtThresholds_kwargs.date_metrics kw);
          date_thresholds_as_iterable =
            ensure_is_iterable (DatediffAtThresholds_kwargs.date_thresholds kw)
      in \<lparr>DatediffAtThresholds.date_metrics = date_metrics_as_iterable,
          DatediffAtThresholds.date_thresholds = date_thresholds_as_iterable,
          DatediffAtThresholds.cast_strings_to_dates =
            DatediffAtThresholds_kwargs.cast_strings_to_dates kw,
          DatediffAtThresholds.date_format = DatediffAtThresholds_kwargs.date_format kw,
          DatediffAtThresholds.term_frequency_adjustments =
            DatediffAtThresholds_kwargs.term_frequency_adjustments kw,
          DatediffAtThresholds.invalid_dates_as_null =
            DatediffAtThresholds_kwargs.invalid_dates_as_null kw,
          DatediffAtThresholds.col_expression = instantiate_if_str col_name\<rparr>)"

definition DatediffAtThresholds_create_comparison_levels ::
  "DatediffAtThresholds \<Rightarrow> ComparisonLevelCreator list" where
  "DatediffAtThresholds_create_comparison_levels self =
     (let col = DatediffAtThresholds.col_expression self;
          null_col = (if DatediffAtThresholds.invalid_dates_as_null self
                      then try_parse_date col (DatediffAtThresholds.date_format self)
                      else col);
          date_diff_col = (if DatediffAtThresholds.cast_strings_to_dates self
                           then try_parse_date col (DatediffAtThresholds.date_format self)
                           else col)
      in [NullLevel null_col None None,
          ExactMatchLevel (DatediffAtThresholds.col_expression self)
            (Some (DatediffAtThresholds.term_frequency_adjustments self))]
         @ map (\<lambda>(date_threshold, date_metric).
                  DatediffLevel date_diff_col date_threshold date_metric)
             (zip (DatediffAtThresholds.date_thresholds self)
                  (DatediffAtThresholds.date_metrics self))
         @ [ElseLevel])"

section \<open>comparison\_template\_library.py\<close>

text \<open>
  An attribute that \<open>__init__\<close> sets only on some paths is an option in the record,
  \<open>None\<close> while it is not set; reading it then raises \<open>AttributeError\<close>. A keyword-only
  argument list is a record \<open>C_kwargs\<close>, and \<open>C_defaults\<close> holds the defaults of the
  signature, so that a call \<open>C(col, k=v)\<close> is \<open>C_init col (C_defaults\<lparr>k := v\<rparr>)\<close>.
\<close>

definition getattr :: "string \<Rightarrow> 'a option \<Rightarrow> 'o error + 'a" where
  "getattr name v = (case v of None \<Rightarrow> Inl (AttributeError name) | Some a \<Rightarrow> Inr a)"

text \<open>\<open>d[k]\<close> on a dict, kept as the list of its items in insertion order.\<close>

definition subscript :: "(string \<times> 'v) list \<Rightarrow> string \<Rightarrow> 'o error + 'v" where
  "subscript d k = (case map_of d k of None \<Rightarrow> Inl (KeyError k) | Some v \<Rightarrow> Inr v)"

definition fuzzy_levels ::
  "(string \<times> (ColumnExpression \<Rightarrow> pynum \<Rightarrow> ComparisonLevelCreator)) list" where
  "fuzzy_levels =
     [(''damerau_levenshtein'', DamerauLevenshteinLevel),
      (''jaro'', JaroLevel),
      (''jaro_winkler'', JaroWinklerLevel),
      (''levenshtein'', LevenshteinLevel)]"

definition AVAILABLE_METRICS_STRING :: string where
  "AVAILABLE_METRICS_STRING =
     join '', '' (map (\<lambda>x. [CHR 0x27] @ x @ [CHR 0x27]) (map fst fuzzy_levels))"

text \<open>The message of the \<open>ValueError\<close> of both constructors. The field
  \<open>{fuzzy_metric=}\<close> renders as the text \<open>fuzzy_metric=\<close> and the \<open>repr\<close> of the value.\<close>

definition invalid_fuzzy_metric_message :: "string \<Rightarrow> ComparisonLevelCreator fstring_part list" where
  "invalid_fuzzy_metric_message fuzzy_metric' =
     [Lit ''Invalid value for '', Lit ''fuzzy_metric='', Field_repr (PyStr fuzzy_metric'),
      Lit ''.  '', Lit ''Must choose one of: '', Lit AVAILABLE_METRICS_STRING, Lit ''.'']"

subsection \<open>DateComparison\<close>

record DateComparison_kwargs =
  date_format :: "string option"
  invalid_dates_as_null :: bool
  include_exact_match_level :: bool
  separate_1st_january :: bool
  fuzzy_metric :: string
  fuzzy_thresholds :: "pynum one_or_many"
  datediff_thresholds :: "pynum one_or_many"
  datediff_metrics :: "string one_or_many"

definition DateComparison_defaults :: DateComparison_kwargs where
  "DateComparison_defaults =
     \<lparr>DateComparison_kwargs.date_format = None,
      DateComparison_kwargs.invalid_dates_as_null = False,
      DateComparison_kwargs.include_exact_match_level = True,
      DateComparison_kwargs.separate_1st_january = False,
      DateComparison_kwargs.fuzzy_metric = ''damerau_levenshtein'',
      DateComparison_kwargs.fuzzy_thresholds = Many [PyInt 1],
      DateComparison_kwargs.datediff_thresholds = Many [PyInt 1, PyInt 1, PyInt 10],
      DateComparison_kwargs.datediff_metrics = Many [''month'', ''year'', ''year'']\<rparr>"

record DateComparison =
  fuzzy_thresholds :: "pynum list"
  date_thresholds :: "pynum list"
  date_metrics :: "string list"
  date_format :: "string option"
  invalid_dates_as_null :: bool
  separate_1st_january :: bool
  exact_match :: bool
  fuzzy_level :: "(ColumnExpression \<Rightarrow> pynum \<Rightarrow> ComparisonLevelCreator) option"
  fuzzy_metric :: "string option"
  col_expression :: ColumnExpression

definition DateComparison_init ::
  "col_name \<Rightarrow> DateComparison_kwargs \<Rightarrow> ComparisonLevelCreator error + DateComparison" where
  "DateComparison_init col_name kw =
     (let fuzzy_thresholds_as_iterable =
            ensure_is_iterable (DateComparison_kwargs.fuzzy_thresholds kw);
          date_thresholds_as_iterable =
            ensure_is_iterable (DateComparison_kwargs.datediff_thresholds kw);
          date_metrics_as_iterable =
            ensure_is_iterable (DateComparison_kwargs.datediff_metrics kw);
          self = \<lparr>DateComparison.fuzzy_thresholds = fuzzy_thresholds_as_iterable,
                  DateComparison.date_thresholds = date_thresholds_as_iterable,
                  DateComparison.date_metrics = date_metrics_as_iterable,
                  DateComparison.date_format = DateComparison_kwargs.date_format kw,
                  DateComparison.invalid_dates_as_null =
                    DateComparison_kwargs.invalid_dates_as_null kw,
                  DateComparison.separate_1st_january =
                    DateComparison_kwargs.separate_1st_january kw,
                  DateComparison.exact_match = DateComparison_kwargs.include_exact_match_level kw,
                  DateComparison.fuzzy_level = None,
                  DateComparison.fuzzy_metric = None,
                  DateComparison.col_expression = instantiate_if_str col_name\<rparr>
      in if DateComparison.fuzzy_thresholds self \<noteq> [] then
           (case map_of fuzzy_levels (DateComparison_kwargs.fuzzy_metric kw) of
              None \<Rightarrow>
                Inl (ValueError
                  (invalid_fuzzy_metric_message (DateComparison_kwargs.fuzzy_metric kw)))
            | Some level \<Rightarrow>
                Inr (self\<lparr>DateComparison.fuzzy_level := Some level,
                          DateComparison.fuzzy_metric :=
                            Some (DateComparison_kwargs.fuzzy_metric kw)\<rparr>))
         else Inr self)"

text \<open>\<open>name_l\<close> is the property of that name of \<open>ColumnExpression\<close> (not under src/): the
  text of the left-hand column. \<open>first_january_level\<close> is the level that
  \<open>create_comparison_levels\<close> appends under \<open>if self.separate_1st_january\<close>.\<close>

definition first_january_level ::
  "(ColumnExpression \<Rightarrow> string) \<Rightarrow> ColumnExpression \<Rightarrow> ComparisonLevelCreator" where
  "first_january_level name_l col_expression' =
     And [CustomLevel
            [(''sql_condition'',
              PyStr (''SUBSTR('' @ name_l col_expression' @ '', 6, 5) = '01-01'' @ [CHR 0x27])),
             (''label_for_charts'', PyStr ''Match 1st Jan.'')],
          ExactMatchLevel col_expression' None]"

definition DateComparison_create_comparison_levels ::
  "(ColumnExpression \<Rightarrow> string) \<Rightarrow> DateComparison \<Rightarrow> ComparisonLevelCreator error + ComparisonLevelCreator list" where
  "DateComparison_create_comparison_levels name_l self =
     (let col_expression' = DateComparison.col_expression self;
          levels = [NullLevel col_expression' (DateComparison.date_format self)
                      (Some (DateComparison.invalid_dates_as_null self))];
          levels = (if DateComparison.separate_1st_january self
                    then levels @ [first_january_level name_l col_expression']
                    else levels);
          levels = (if DateComparison.exact_match self
                    then levels @ [ExactMatchLevel col_expression' None]
                    else levels)
      in case (if DateComparison.fuzzy_thresholds self \<noteq> [] then
                 (case getattr ''fuzzy_level'' (DateComparison.fuzzy_level self) of
                    Inl e \<Rightarrow> Inl e
                  | Inr fuzzy_level' \<Rightarrow>
                      Inr (levels @ map (\<lambda>threshold. fuzzy_level' col_expression' threshold)
                                      (DateComparison.fuzzy_thresholds self)))
               else Inr levels) of
           Inl e \<Rightarrow> Inl e
         | Inr levels \<Rightarrow>
            (let levels = (if DateComparison.date_thresholds self \<noteq> [] then
                             levels @ map (\<lambda>(threshold, metric).
                                             DatediffLevel col_expression' threshold metric)
                                        (zip (DateComparison.date_thresholds self)
                                             (DateComparison.date_metrics self))
                           else levels)
             in Inr (levels @ [ElseLevel])))"

text \<open>\<open>str\<close> is Python's \<open>str\<close> on numbers and \<open>title\<close> is \<open>str.title\<close>.\<close>

definition DateComparison_create_description ::
  "(pynum \<Rightarrow> string) \<Rightarrow> (string \<Rightarrow> string) \<Rightarrow> DateComparison \<Rightarrow> ComparisonLevelCreator error + string" where
  "DateComparison_create_description str title self =
     (let comparison_desc = [];
          comparison_desc =
            (if DateComparison.exact_match self then
               (let comparison_desc = comparison_desc @ ''Exact match '';
                    comparison_desc = (if DateComparison.separate_1st_january self
                                       then comparison_desc @ ''(with separate 1st Jan) ''
                                       else comparison_desc)
                in comparison_desc @ ''vs. '')
             else comparison_desc)
      in case (if DateComparison.fuzzy_thresholds self \<noteq> [] then
                 (let comma_separated_thresholds_string =
                        join '', '' (map str (DateComparison.fuzzy_thresholds self));
                      plural = (if length (DateComparison.fuzzy_thresholds self) > 1
                                then ''s'' else [])
                  in case getattr ''fuzzy_metric'' (DateComparison.fuzzy_metric self) of
                       Inl e \<Rightarrow> Inl e
                     | Inr fuzzy_metric' \<Rightarrow>
                         Inr (fuzzy_metric' @ '' at threshold'' @ plural @ '' ''
                              @ comma_separated_thresholds_string @ '' vs. ''))
               else Inr comparison_desc) of
           Inl e \<Rightarrow> Inl e
         | Inr comparison_desc \<Rightarrow>
            (let comparison_desc =
                   (if DateComparison.date_thresholds self \<noteq> [] then
                      (let datediff_separated_thresholds_string =
                             join '', '' (map (\<lambda>(v, m). title m @ ''(s): '' @ str v)
                                            (zip (DateComparison.date_thresholds self)
                                                 (DateComparison.date_metrics self)));
                           plural = (if length (DateComparison.date_thresholds self) > 1
                                     then ''s'' else [])
                       in comparison_desc @ ''dates within the following threshold'' @ plural
                          @ '' '' @ datediff_separated_thresholds_string @ '' vs. '')
                    else comparison_desc)
             in Inr (comparison_desc @ ''anything else'')))"

subsection \<open>PostcodeComparison\<close>

definition VALID_POSTCODE_REGEX :: string where
  "VALID_POSTCODE_REGEX = ''^[A-Za-z]{1,2}[0-9][A-Za-z0-9]? [0-9][A-Za-z]{2}$''"

definition SECTOR_REGEX :: string where
  "SECTOR_REGEX = ''^[A-Za-z]{1,2}[0-9][A-Za-z0-9]? [0-9]''"

definition DISTRICT_REGEX :: string where
  "DISTRICT_REGEX = ''^[A-Za-z]{1,2}[0-9][A-Za-z0-9]?''"

definition AREA_REGEX :: string where
  "AREA_REGEX = ''^[A-Za-z]{1,2}''"

record PostcodeComparison_kwargs =
  invalid_postcodes_as_null :: bool
  valid_postcode_regex :: string
  include_full_match_level :: bool
  include_sector_match_level :: bool
  include_district_match_level :: bool
  include_area_match_level :: bool
  lat_col :: "col_name option"
  long_col :: "col_name option"
  km_thresholds :: "pynum one_or_many"

definition PostcodeComparison_defaults :: PostcodeComparison_kwargs where
  "PostcodeComparison_defaults =
     \<lparr>PostcodeComparison_kwargs.invalid_postcodes_as_null = False,
      PostcodeComparison_kwargs.valid_postcode_regex = VALID_POSTCODE_REGEX,
      PostcodeComparison_kwargs.include_full_match_level = True,
      PostcodeComparison_kwargs.include_sector_match_level = True,
      PostcodeComparison_kwargs.include_district_match_level = True,
      PostcodeComparison_kwargs.include_area_match_level = True,
      PostcodeComparison_kwargs.lat_col = None,
      PostcodeComparison_kwargs.long_col = None,
      PostcodeComparison_kwargs.km_thresholds = Many []\<rparr>"

text \<open>\<open>km_thresholds\<close> is set only inside \<open>if km_thresholds:\<close>. The dict \<open>cols\<close> goes to
  \<open>ComparisonCreator.__init__\<close>, which keeps it by key as \<open>col_expressions\<close>; \<open>lat_col\<close> and
  \<open>long_col\<close> may be Python's \<open>None\<close>, so its values are options.\<close>

record PostcodeComparison =
  valid_postcode_regex :: "string option"
  full_match :: bool
  sector_match :: bool
  district_match :: bool
  area_match :: bool
  km_thresholds :: "pynum list option"
  col_expressions :: "(string \<times> ColumnExpression option) list"

definition PostcodeComparison_init ::
  "col_name \<Rightarrow> PostcodeComparison_kwargs \<Rightarrow> PostcodeComparison" where
  "PostcodeComparison_init col_name kw =
     (let self = \<lparr>PostcodeComparison.valid_postcode_regex =
                    (if PostcodeComparison_kwargs.invalid_postcodes_as_null kw
                     then Some (PostcodeComparison_kwargs.valid_postcode_regex kw) else None),
                  PostcodeComparison.full_match =
                    PostcodeComparison_kwargs.include_full_match_level kw,
                  PostcodeComparison.sector_match =
                    PostcodeComparison_kwargs.include_sector_match_level kw,
                  PostcodeComparison.district_match =
                    PostcodeComparison_kwargs.include_district_match_level kw,
                  PostcodeComparison.area_match =
                    PostcodeComparison_kwargs.include_area_match_level kw,
                  PostcodeComparison.km_thresholds = None,
                  PostcodeComparison.col_expressions = []\<rparr>;
          cols = [(''postcode'', Some col_name)];
          (self, cols) =
            (if truthy_arg (PostcodeComparison_kwargs.km_thresholds kw) then
               (let km_thresholds_as_iterable =
                      ensure_is_iterable (PostcodeComparison_kwargs.km_thresholds kw)
                in (self\<lparr>PostcodeComparison.km_thresholds := Some km_thresholds_as_iterable\<rparr>,
                    cols @ [(''latitude'', PostcodeComparison_kwargs.lat_col kw),
                            (''longitude'', PostcodeComparison_kwargs.long_col kw)]))
             else (self, cols))
      in self\<lparr>PostcodeComparison.col_expressions :=
                 map (\<lambda>(name, column). (name, map_option instantiate_if_str column)) cols\<rparr>)"

text \<open>\<open>regex_extract\<close> is called on the value under \<open>"postcode"\<close>; were that \<open>None\<close>, the
  call would raise \<open>AttributeError\<close>.\<close>

definition PostcodeComparison_create_comparison_levels ::
  "PostcodeComparison \<Rightarrow> ComparisonLevelCreator error + ComparisonLevelCreator list" where
  "PostcodeComparison_create_comparison_levels self =
     (case subscript (PostcodeComparison.col_expressions self) ''postcode'' of
        Inl e \<Rightarrow> Inl e
      | Inr None \<Rightarrow> Inl (AttributeError ''regex_extract'')
      | Inr (Some full_col_expression) \<Rightarrow>
         (let sector_col_expression = regex_extract full_col_expression SECTOR_REGEX;
              district_col_expression = regex_extract full_col_expression DISTRICT_REGEX;
              area_col_expression = regex_extract full_col_expression AREA_REGEX;
              levels = [NullLevel full_col_expression
                          (PostcodeComparison.valid_postcode_regex self) None];
              levels = (if PostcodeComparison.full_match self
                        then levels @ [ExactMatchLevel full_col_expression None] else levels);
              levels = (if PostcodeComparison.sector_match self
                        then levels @ [ExactMatchLevel sector_col_expression None] else levels);
              levels = (if PostcodeComparison.district_match self
                        then levels @ [ExactMatchLevel district_col_expression None] else levels);
              levels = (if PostcodeComparison.area_match self
                        then levels @ [ExactMatchLevel area_col_expression None] else levels)
          in case getattr ''km_thresholds'' (PostcodeComparison.km_thresholds self) of
               Inl e \<Rightarrow> Inl e
             | Inr km_thresholds' \<Rightarrow>
                (case (if km_thresholds' \<noteq> [] then
                         (case subscript (PostcodeComparison.col_expressions self) ''latitude'' of
                            Inl e \<Rightarrow> Inl e
                          | Inr lat_col_expression \<Rightarrow>
                             (case subscript (PostcodeComparison.col_expressions self)
                                     ''longitude'' of
                                Inl e \<Rightarrow> Inl e
                              | Inr long_col_expression \<Rightarrow>
                                 Inr (levels @
                                      map (\<lambda>km_threshold.
                                             DistanceInKMLevel lat_col_expression
                                               long_col_expression km_threshold)
                                          km_thresholds')))
                       else Inr levels) of
                   Inl e \<Rightarrow> Inl e
                 | Inr levels \<Rightarrow> Inr (levels @ [ElseLevel]))))"

definition PostcodeComparison_create_description ::
  "(pynum \<Rightarrow> string) \<Rightarrow> PostcodeComparison \<Rightarrow> ComparisonLevelCreator error + string" where
  "PostcodeComparison_create_description str self =
     (let comparison_desc = [];
          comparison_desc = (if PostcodeComparison.full_match self
                             then comparison_desc @ ''Exact match vs. '' else comparison_desc);
          comparison_desc = (if PostcodeComparison.sector_match self
                             then comparison_desc @ ''Exact sector match vs. ''
                             else comparison_desc);
          comparison_desc = (if PostcodeComparison.district_match self
                             then comparison_desc @ ''Exact district match vs. ''
                             else comparison_desc);
          comparison_desc = (if PostcodeComparison.area_match self
                             then comparison_desc @ ''Exact area match vs. ''
                             else comparison_desc)
      in case getattr ''km_thresholds'' (PostcodeComparison.km_thresholds self) of
           Inl e \<Rightarrow> Inl e
         | Inr km_thresholds' \<Rightarrow>
            (let comparison_desc =
                   (if km_thresholds' \<noteq> [] then
                      (let comma_separated_thresholds_string =
                             join '', '' (map str km_thresholds');
                           plural = (if length km_thresholds' > 1 then ''s'' else [])
                       in ''km distance within threshold'' @ plural @ '' ''
                          @ comma_separated_thresholds_string @ '' vs. '')
                    else comparison_desc)
             in Inr (comparison_desc @ ''anything else'')))"

subsection \<open>EmailComparison\<close>

definition DEFAULT_EMAIL_REGEX :: string where
  "DEFAULT_EMAIL_REGEX = ''^[a-zA-Z0-9._%+-]+@[a-zA-Z0-9.-]+[.][a-zA-Z]{2,}$''"

definition USERNAME_REGEX :: string where
  "USERNAME_REGEX = ''^[^@]+''"

definition DOMAIN_REGEX :: string where
  "DOMAIN_REGEX = ''@([^@]+)$''"

record EmailComparison_kwargs =
  invalid_emails_as_null :: bool
  valid_email_regex :: string
  include_exact_match_level :: bool
  include_username_match_level :: bool
  include_username_fuzzy_level :: bool
  include_domain_match_level :: bool
  fuzzy_metric :: string
  fuzzy_thresholds :: "pynum one_or_many"

definition EmailComparison_defaults :: EmailComparison_kwargs where
  "EmailComparison_defaults =
     \<lparr>EmailComparison_kwargs.invalid_emails_as_null = False,
      EmailComparison_kwargs.valid_email_regex = DEFAULT_EMAIL_REGEX,
      EmailComparison_kwargs.include_exact_match_level = True,
      EmailComparison_kwargs.include_username_match_level = True,
      EmailComparison_kwargs.include_username_fuzzy_level = True,
      EmailComparison_kwargs.include_domain_match_level = False,
      EmailComparison_kwargs.fuzzy_metric = ''jaro_winkler'',
      EmailComparison_kwargs.fuzzy_thresholds = Many [PyFloat 0.88]\<rparr>"

record EmailComparison =
  fuzzy_thresholds :: "pynum list"
  valid_email_regex :: "string option"
  exact_match :: bool
  username_match :: bool
  username_fuzzy :: bool
  domain_match :: bool
  fuzzy_level :: "(ColumnExpression \<Rightarrow> pynum \<Rightarrow> ComparisonLevelCreator) option"
  fuzzy_metric :: "string option"
  col_expression :: ColumnExpression

definition EmailComparison_init ::
  "col_name \<Rightarrow> EmailComparison_kwargs \<Rightarrow> ComparisonLevelCreator error + EmailComparison" where
  "EmailComparison_init col_name kw =
     (let thresholds_as_iterable =
            ensure_is_iterable (EmailComparison_kwargs.fuzzy_thresholds kw);
          self = \<lparr>EmailComparison.fuzzy_thresholds = thresholds_as_iterable,
                  EmailComparison.valid_email_regex =
                    (if EmailComparison_kwargs.invalid_emails_as_null kw
                     then Some (EmailComparison_kwargs.valid_email_regex kw) else None),
                  EmailComparison.exact_match =
                    EmailComparison_kwargs.include_exact_match_level kw,
                  EmailComparison.username_match =
                    EmailComparison_kwargs.include_username_match_level kw,
                  EmailComparison.username_fuzzy =
                    EmailComparison_kwargs.include_username_fuzzy_level kw,
                  EmailComparison.domain_match =
                    EmailComparison_kwargs.include_domain_match_level kw,
                  EmailComparison.fuzzy_level = None,
                  EmailComparison.fuzzy_metric = None,
                  EmailComparison.col_expression = instantiate_if_str col_name\<rparr>
      in if EmailComparison.fuzzy_thresholds self \<noteq> [] then
           (case map_of fuzzy_levels (EmailComparison_kwargs.fuzzy_metric kw) of
              None \<Rightarrow>
                Inl (ValueError
                  (invalid_fuzzy_metric_message (EmailComparison_kwargs.fuzzy_metric kw)))
            | Some level \<Rightarrow>
                Inr (self\<lparr>EmailComparison.fuzzy_level := Some level,
                          EmailComparison.fuzzy_metric :=
                            Some (EmailComparison_kwargs.fuzzy_metric kw)\<rparr>))
         else Inr self)"

definition EmailComparison_create_comparison_levels ::
  "EmailComparison \<Rightarrow> ComparisonLevelCreator error + ComparisonLevelCreator list" where
  "EmailComparison_create_comparison_levels self =
     (let full_col_expression = EmailComparison.col_expression self;
          username_col_expression = regex_extract full_col_expression USERNAME_REGEX;
          domain_col_expression = regex_extract full_col_expression DOMAIN_REGEX;
          levels = [NullLevel full_col_expression (EmailComparison.valid_email_regex self) None];
          levels = (if EmailComparison.exact_match self
                    then levels @ [ExactMatchLevel full_col_expression None] else levels);
          levels = (if EmailComparison.username_match self
                    then levels @ [ExactMatchLevel username_col_expression None] else levels)
      in case (if EmailComparison.fuzzy_thresholds self \<noteq> [] then
                 (case getattr ''fuzzy_level'' (EmailComparison.fuzzy_level self) of
                    Inl e \<Rightarrow> Inl e
                  | Inr fuzzy_level' \<Rightarrow>
                     (let levels = levels @
                            map (\<lambda>threshold. fuzzy_level' full_col_expression threshold)
                                (EmailComparison.fuzzy_thresholds self)
                      in Inr (if EmailComparison.username_fuzzy self
                              then levels @
                                map (\<lambda>threshold. fuzzy_level' username_col_expression threshold)
                                    (EmailComparison.fuzzy_thresholds self)
                              else levels)))
               else Inr levels) of
           Inl e \<Rightarrow> Inl e
         | Inr levels \<Rightarrow>
            (let levels = (if EmailComparison.domain_match self
                           then levels @ [ExactMatchLevel domain_col_expression None]
                           else levels)
             in Inr (levels @ [ElseLevel])))"

definition EmailComparison_create_description ::
  "(pynum \<Rightarrow> string) \<Rightarrow> EmailComparison \<Rightarrow> ComparisonLevelCreator error + string" where
  "EmailComparison_create_description str self =
     (let comparison_desc = [];
          comparison_desc = (if EmailComparison.exact_match self
                             then comparison_desc @ ''Exact match vs. '' else comparison_desc);
          comparison_desc = (if EmailComparison.username_match self
                             then comparison_desc @ ''Exact username match different domain vs. ''
                             else comparison_desc)
      in case (if EmailComparison.fuzzy_thresholds self \<noteq> [] then
                 (let comma_separated_thresholds_string =
                        join '', '' (map str (EmailComparison.fuzzy_thresholds self));
                      plural = (if length (EmailComparison.fuzzy_thresholds self) > 1
                                then ''s'' else [])
                  in case getattr ''fuzzy_metric'' (EmailComparison.fuzzy_metric self) of
                       Inl e \<Rightarrow> Inl e
                     | Inr fuzzy_metric' \<Rightarrow>
                        (let comparison_desc =
                               fuzzy_metric' @ '' at threshold'' @ plural @ '' ''
                               @ comma_separated_thresholds_string @ '' vs. ''
                         in Inr (if EmailComparison.username_fuzzy self
                                 then fuzzy_metric' @ '' on username at threshold'' @ plural
                                      @ '' '' @ comma_separated_thresholds_string @ '' vs. ''
                                 else comparison_desc)))
               else Inr comparison_desc) of
           Inl e \<Rightarrow> Inl e
         | Inr comparison_desc \<Rightarrow>
            (let comparison_desc = (if EmailComparison.domain_match self
                                    then comparison_desc @ ''Domain-only match vs. ''
                                    else comparison_desc)
             in Inr (comparison_desc @ ''anything else'')))"

section \<open>Predicates of the claims\<close>

text \<open>
  The words of the claims as predicates: a level list is non-empty and ends with the
  catch-all; a level is a fuzzy level when it is of one of the four classes of
  \<open>_fuzzy_levels\<close>; a level is a date-difference level; a level stands in a list at a
  position strictly before every fuzzy level of the list.
\<close>

definition ends_with_else :: "ComparisonLevelCreator list \<Rightarrow> bool" where
  "ends_with_else levels = (levels \<noteq> [] \<and> last levels = ElseLevel)"

fun is_fuzzy_level :: "ComparisonLevelCreator \<Rightarrow> bool" where
  "is_fuzzy_level (LevenshteinLevel c t) = True"
| "is_fuzzy_level (DamerauLevenshteinLevel c t) = True"
| "is_fuzzy_level (JaroLevel c t) = True"
| "is_fuzzy_level (JaroWinklerLevel c t) = True"
| "is_fuzzy_level l = False"

fun is_datediff_level :: "ComparisonLevelCreator \<Rightarrow> bool" where
  "is_datediff_level (DatediffLevel c t m) = True"
| "is_datediff_level l = False"

definition appears_before_fuzzy ::
  "ComparisonLevelCreator \<Rightarrow> ComparisonLevelCreator list \<Rightarrow> bool" where
  "appears_before_fuzzy e levels =
     (\<exists>i<length levels. levels ! i = e
        \<and> (\<forall>j<length levels. is_fuzzy_level (levels ! j) \<longrightarrow> i < j))"

section \<open>Auxiliary facts\<close>

lemma fuzzy_levels_is_fuzzy: "map_of fuzzy_levels m = Some f \<Longrightarrow> is_fuzzy_level (f c t)"
  by (auto simp: fuzzy_levels_def split: if_splits)

lemma map_of_fuzzy_levels_None:
  "(map_of fuzzy_levels m = None) =
   (m \<notin> {''damerau_levenshtein'', ''jaro'', ''jaro_winkler'', ''levenshtein''})"
  by (simp add: fuzzy_levels_def)

lemma AVAILABLE_METRICS_STRING_eq:
  "AVAILABLE_METRICS_STRING =
     [CHR 0x27] @ ''damerau_levenshtein', 'jaro', 'jaro_winkler', 'levenshtein'' @ [CHR 0x27]"
  by (simp add: AVAILABLE_METRICS_STRING_def fuzzy_levels_def)

lemma DateComparison_init_Inr:
  assumes "DateComparison_init col kw = Inr s"
  shows "s = \<lparr>DateComparison.fuzzy_thresholds =
                 ensure_is_iterable (DateComparison_kwargs.fuzzy_thresholds kw),
              DateComparison.date_thresholds =
                 ensure_is_iterable (DateComparison_kwargs.datediff_thresholds kw),
              DateComparison.date_metrics =
                 ensure_is_iterable (DateComparison_kwargs.datediff_metrics kw),
              DateComparison.date_format = DateComparison_kwargs.date_format kw,
              DateComparison.invalid_dates_as_null = DateComparison_kwargs.invalid_dates_as_null kw,
              DateComparison.separate_1st_january = DateComparison_kwargs.separate_1st_january kw,
              DateComparison.exact_match = DateComparison_kwargs.include_exact_match_level kw,
              DateComparison.fuzzy_level =
                 (if ensure_is_iterable (DateComparison_kwargs.fuzzy_thresholds kw) \<noteq> []
                  then map_of fuzzy_levels (DateComparison_kwargs.fuzzy_metric kw) else None),
              DateComparison.fuzzy_metric =
                 (if ensure_is_iterable (DateComparison_kwargs.fuzzy_thresholds kw) \<noteq> []
                  then Some (DateComparison_kwargs.fuzzy_metric kw) else None),
              DateComparison.col_expression = instantiate_if_str col\<rparr>"
    and "ensure_is_iterable (DateComparison_kwargs.fuzzy_thresholds kw) \<noteq> [] \<Longrightarrow>
         map_of fuzzy_levels (DateComparison_kwargs.fuzzy_metric kw) \<noteq> None"
  using assms
  by (auto simp: DateComparison_init_def Let_def split: if_splits option.splits)

lemma DateComparison_init_ok:
  assumes "ensure_is_iterable (DateComparison_kwargs.fuzzy_thresholds kw) = []
           \<or> map_of fuzzy_levels (DateComparison_kwargs.fuzzy_metric kw) \<noteq> None"
  shows "\<exists>s. DateComparison_init col kw = Inr s"
  using assms
  by (auto simp: DateComparison_init_def Let_def split: if_splits option.splits)

lemma DateComparison_levels:
  assumes "DateComparison_init col kw = Inr s"
  shows "\<exists>fz. DateComparison_create_comparison_levels name_l s =
           Inr ([NullLevel (instantiate_if_str col) (DateComparison_kwargs.date_format kw)
                   (Some (DateComparison_kwargs.invalid_dates_as_null kw))]
                @ (if DateComparison_kwargs.separate_1st_january kw
                   then [first_january_level name_l (instantiate_if_str col)] else [])
                @ (if DateComparison_kwargs.include_exact_match_level kw
                   then [ExactMatchLevel (instantiate_if_str col) None] else [])
                @ fz
                @ map (\<lambda>(threshold, metric).
                         DatediffLevel (instantiate_if_str col) threshold metric)
                      (zip (ensure_is_iterable (DateComparison_kwargs.datediff_thresholds kw))
                           (ensure_is_iterable (DateComparison_kwargs.datediff_metrics kw)))
                @ [ElseLevel])
         \<and> list_all is_fuzzy_level fz
         \<and> length fz = length (ensure_is_iterable (DateComparison_kwargs.fuzzy_thresholds kw))"
proof (cases "ensure_is_iterable (DateComparison_kwargs.fuzzy_thresholds kw) = []")
  case True
  with DateComparison_init_Inr(1)[OF assms] show ?thesis
    by (simp add: DateComparison_create_comparison_levels_def Let_def)
next
  case False
  with DateComparison_init_Inr(2)[OF assms] obtain f where
    f: "map_of fuzzy_levels (DateComparison_kwargs.fuzzy_metric kw) = Some f" by auto
  have "list_all is_fuzzy_level
          (map (f (instantiate_if_str col))
             (ensure_is_iterable (DateComparison_kwargs.fuzzy_thresholds kw)))"
    by (simp add: list_all_iff fuzzy_levels_is_fuzzy[OF f])
  with False f DateComparison_init_Inr(1)[OF assms] show ?thesis
    by (simp add: DateComparison_create_comparison_levels_def Let_def getattr_def)
qed

lemma fuzzy_not_datediff: "is_fuzzy_level l \<Longrightarrow> \<not> is_datediff_level l"
  by (cases l) simp_all

lemma EmailComparison_init_Inr:
  assumes "EmailComparison_init col kw = Inr s"
  shows "s = \<lparr>EmailComparison.fuzzy_thresholds =
                 ensure_is_iterable (EmailComparison_kwargs.fuzzy_thresholds kw),
              EmailComparison.valid_email_regex =
                 (if EmailComparison_kwargs.invalid_emails_as_null kw
                  then Some (EmailComparison_kwargs.valid_email_regex kw) else None),
              EmailComparison.exact_match = EmailComparison_kwargs.include_exact_match_level kw,
              EmailComparison.username_match =
                 EmailComparison_kwargs.include_username_match_level kw,
              EmailComparison.username_fuzzy =
                 EmailComparison_kwargs.include_username_fuzzy_level kw,
              EmailComparison.domain_match = EmailComparison_kwargs.include_domain_match_level kw,
              EmailComparison.fuzzy_level =
                 (if ensure_is_iterable (EmailComparison_kwargs.fuzzy_thresholds kw) \<noteq> []
                  then map_of fuzzy_levels (EmailComparison_kwargs.fuzzy_metric kw) else None),
              EmailComparison.fuzzy_metric =
                 (if ensure_is_iterable (EmailComparison_kwargs.fuzzy_thresholds kw) \<noteq> []
                  then Some (EmailComparison_kwargs.fuzzy_metric kw) else None),
              EmailComparison.col_expression = instantiate_if_str col\<rparr>"
    and "ensure_is_iterable (EmailComparison_kwargs.fuzzy_thresholds kw) \<noteq> [] \<Longrightarrow>
         map_of fuzzy_levels (EmailComparison_kwargs.fuzzy_metric kw) \<noteq> None"
  using assms
  by (auto simp: EmailComparison_init_def Let_def split: if_splits option.splits)

lemma EmailComparison_levels:
  assumes "EmailComparison_init col kw = Inr s"
  shows "\<exists>fz. EmailComparison_create_comparison_levels s =
           Inr ([NullLevel (instantiate_if_str col)
                   (if EmailComparison_kwargs.invalid_emails_as_null kw
                    then Some (EmailComparison_kwargs.valid_email_regex kw) else None) None]
                @ (if EmailComparison_kwargs.include_exact_match_level kw
                   then [ExactMatchLevel (instantiate_if_str col) None] else [])
                @ (if EmailComparison_kwargs.include_username_match_level kw
                   then [ExactMatchLevel
                           (regex_extract (instantiate_if_str col) USERNAME_REGEX) None]
                   else [])
                @ fz
                @ (if EmailComparison_kwargs.include_domain_match_level kw
                   then [ExactMatchLevel
                           (regex_extract (instantiate_if_str col) DOMAIN_REGEX) None]
                   else [])
                @ [ElseLevel])
         \<and> list_all is_fuzzy_level fz"
proof (cases "ensure_is_iterable (EmailComparison_kwargs.fuzzy_thresholds kw) = []")
  case True
  with EmailComparison_init_Inr(1)[OF assms] show ?thesis
    by (simp add: EmailComparison_create_comparison_levels_def Let_def)
next
  case False
  with EmailComparison_init_Inr(2)[OF assms] obtain f where
    f: "map_of fuzzy_levels (EmailComparison_kwargs.fuzzy_metric kw) = Some f" by auto
  have "list_all is_fuzzy_level
          (map (f c) (ensure_is_iterable (EmailComparison_kwargs.fuzzy_thresholds kw)))" for c
    by (simp add: list_all_iff fuzzy_levels_is_fuzzy[OF f])
  with False f EmailComparison_init_Inr(1)[OF assms] show ?thesis
    by (simp add: EmailComparison_create_comparison_levels_def Let_def getattr_def)
qed

lemma truthy_arg_nonempty: "truthy_arg a \<Longrightarrow> ensure_is_iterable a \<noteq> []"
  by (cases a) simp_all

lemma PostcodeComparison_levels:
  assumes "truthy_arg (PostcodeComparison_kwargs.km_thresholds kw)"
  shows "\<exists>mid. PostcodeComparison_create_comparison_levels (PostcodeComparison_init col kw) =
           Inr (NullLevel (instantiate_if_str col)
                  (if PostcodeComparison_kwargs.invalid_postcodes_as_null kw
                   then Some (PostcodeComparison_kwargs.valid_postcode_regex kw) else None) None
                # mid @ [ElseLevel])"
  using assms truthy_arg_nonempty[OF assms]
  by (simp add: PostcodeComparison_create_comparison_levels_def PostcodeComparison_init_def
      Let_def getattr_def subscript_def)

lemma appears_before_fuzzyI:
  assumes "list_all (\<lambda>l. \<not> is_fuzzy_level l) pre" and "\<not> is_fuzzy_level e"
  shows "appears_before_fuzzy e (pre @ e # post)"
  unfolding appears_before_fuzzy_def
proof (intro exI[of _ "length pre"] conjI allI impI)
  show "length pre < length (pre @ e # post)" by simp
  show "(pre @ e # post) ! length pre = e" by simp
  fix j assume j: "j < length (pre @ e # post)" and fz: "is_fuzzy_level ((pre @ e # post) ! j)"
  show "length pre < j"
  proof (rule ccontr)
    assume "\<not> length pre < j"
    then consider "j < length pre" | "j = length pre" by linarith
    then show False
    proof cases
      case 1
      then have "(pre @ e # post) ! j = pre ! j" by (simp add: nth_append)
      moreover have "\<not> is_fuzzy_level (pre ! j)"
        using assms(1) 1 by (simp add: list_all_length)
      ultimately show False using fz by simp
    next
      case 2
      then show False using assms(2) fz by simp
    qed
  qed
qed

lemma comprehension_Inr:
  "comprehension f xs = Inr ys \<Longrightarrow> list_all2 (\<lambda>x y. f x = Inr y) xs ys"
  by (induction xs arbitrary: ys) (auto split: sum.splits)

lemma list_all2_last:
  assumes "list_all2 P xs ys" and "xs \<noteq> []"
  shows "P (last xs) (last ys)"
proof -
  have len: "length xs = length ys" using assms(1) by (rule list_all2_lengthD)
  with assms(2) have ys: "ys \<noteq> []" by auto
  have "P (xs ! (length xs - 1)) (ys ! (length xs - 1))"
    using list_all2_nthD[OF assms(1), of "length xs - 1"] assms(2) by simp
  with len assms(2) ys show ?thesis by (simp add: last_conv_nth)
qed

lemma convert_to_creator_ElseLevel:
  "(convert_to_creator cl = Inr ElseLevel) = (cl = PyObj ElseLevel)"
  by (cases cl) simp_all

lemma CustomComparison_last:
  assumes "CustomComparison_create_comparison_levels (CustomComparison_init name entries d)
             = Inr levels"
  shows "ends_with_else levels = (entries \<noteq> [] \<and> last entries = PyObj ElseLevel)"
proof -
  have all2: "list_all2 (\<lambda>x y. convert_to_creator x = Inr y) entries levels"
    using assms
    by (simp add: CustomComparison_create_comparison_levels_def CustomComparison_init_def
        comprehension_Inr)
  show ?thesis
  proof (cases "entries = []")
    case True
    with all2 show ?thesis by (simp add: ends_with_else_def)
  next
    case False
    with all2 have "levels \<noteq> []" by auto
    moreover have "convert_to_creator (last entries) = Inr (last levels)"
      using list_all2_last[OF all2 False] .
    ultimately show ?thesis
      using False convert_to_creator_ElseLevel[of "last entries"]
      by (auto simp: ends_with_else_def)
  qed
qed

lemma DateComparison_ends_with_else:
  assumes "DateComparison_init col kw = Inr dc"
  shows "\<exists>levels. DateComparison_create_comparison_levels name_l dc = Inr levels
           \<and> ends_with_else levels"
  using DateComparison_levels[OF assms, of name_l] by (auto simp: ends_with_else_def)

lemma EmailComparison_ends_with_else:
  assumes "EmailComparison_init col kw = Inr ec"
  shows "\<exists>levels. EmailComparison_create_comparison_levels ec = Inr levels
           \<and> ends_with_else levels"
  using EmailComparison_levels[OF assms] by (auto simp: ends_with_else_def)

lemma PostcodeComparison_ends_with_else:
  assumes "truthy_arg (PostcodeComparison_kwargs.km_thresholds kw)"
  shows "\<exists>levels. PostcodeComparison_create_comparison_levels (PostcodeComparison_init col kw)
             = Inr levels \<and> ends_with_else levels"
  using PostcodeComparison_levels[OF assms, of col] by (auto simp: ends_with_else_def)

lemma DateComparison_defaults_Inr:
  "\<exists>dc. DateComparison_init (ColStr ''dob'') DateComparison_defaults = Inr dc"
  by (simp add: DateComparison_init_def DateComparison_defaults_def fuzzy_levels_def Let_def)

lemma EmailComparison_defaults_Inr:
  "\<exists>ec. EmailComparison_init (ColStr ''email'') EmailComparison_defaults = Inr ec"
  by (simp add: EmailComparison_init_def EmailComparison_defaults_def fuzzy_levels_def Let_def)

lemma filter_datediff_map_zip:
  "filter is_datediff_level (map (\<lambda>(t, m). DatediffLevel c t m) tms)
     = map (\<lambda>(t, m). DatediffLevel c t m) tms"
  by (induction tms) auto

lemma filter_datediff_fuzzy:
  "list_all is_fuzzy_level fz \<Longrightarrow> filter is_datediff_level fz = []"
  by (induction fz) (auto dest: fuzzy_not_datediff)

lemma DatediffAtThresholds_datediff_levels:
  "filter is_datediff_level (DatediffAtThresholds_create_comparison_levels self) =
     map (\<lambda>(t, m). DatediffLevel
            (if DatediffAtThresholds.cast_strings_to_dates self
             then try_parse_date (DatediffAtThresholds.col_expression self)
                    (DatediffAtThresholds.date_format self)
             else DatediffAtThresholds.col_expression self) t m)
         (zip (DatediffAtThresholds.date_thresholds self) (DatediffAtThresholds.date_metrics self))"
  by (simp add: DatediffAtThresholds_create_comparison_levels_def Let_def
      filter_datediff_map_zip)

lemma DateComparison_datediff_levels:
  assumes "DateComparison_init col kw = Inr dc"
  shows "\<exists>levels. DateComparison_create_comparison_levels name_l dc = Inr levels
           \<and> filter is_datediff_level levels =
               map (\<lambda>(t, m). DatediffLevel (instantiate_if_str col) t m)
                 (zip (ensure_is_iterable (DateComparison_kwargs.datediff_thresholds kw))
                      (ensure_is_iterable (DateComparison_kwargs.datediff_metrics kw)))"
  using DateComparison_levels[OF assms, of name_l]
  by (auto simp: filter_datediff_map_zip filter_datediff_fuzzy first_january_level_def)

lemma comprehension_all_Inr:
  "list_all (\<lambda>x. \<exists>y. f x = Inr y) xs \<Longrightarrow>
   \<exists>ys. comprehension f xs = Inr ys \<and> list_all2 (\<lambda>x y. f x = Inr y) xs ys"
  by (induction xs) auto

lemma comprehension_first_Inl:
  "list_all (\<lambda>x. \<exists>y. f x = Inr y) pre \<Longrightarrow> f x = Inl e \<Longrightarrow>
   comprehension f (pre @ x # post) = Inl e"
  by (induction pre) (auto split: sum.splits)

lemma convert_to_creator_good:
  "is_obj cl \<or> is_dict cl \<Longrightarrow> \<exists>level. convert_to_creator cl = Inr level"
  by (cases cl) simp_all

lemma convert_to_creator_bad:
  "\<not> is_obj cl \<Longrightarrow> \<not> is_dict cl \<Longrightarrow>
   convert_to_creator cl = Inl (ValueError (convert_to_creator_message cl))"
  by (cases cl) simp_all

section \<open>The level lists of the comparisons\<close>

text \<open>
  C1 (as amended). \<open>create_comparison_levels\<close> of \<open>ExactMatch\<close>, \<open>LevenshteinAtThresholds\<close>
  and \<open>DatediffAtThresholds\<close>, of every \<open>DateComparison\<close> and \<open>EmailComparison\<close> that was
  constructed, and of every \<open>PostcodeComparison\<close> constructed with a true \<open>km_thresholds\<close>,
  returns a non-empty list whose last element is \<open>ElseLevel\<close>. \<open>CustomComparison\<close> returns
  the caller's list converted entry by entry: when it returns, the result is non-empty and
  ends with \<open>ElseLevel\<close> exactly when the caller's list is non-empty and its last entry is an
  \<open>ElseLevel\<close>.
\<close>

theorem create_comparison_levels_ends_with_else:
  "ends_with_else (ExactMatch_create_comparison_levels em)
   \<and> ends_with_else (LevenshteinAtThresholds_create_comparison_levels lev)
   \<and> ends_with_else (DatediffAtThresholds_create_comparison_levels dd)
   \<and> (DateComparison_init dcol dkw = Inr dc \<longrightarrow>
        (\<exists>levels. DateComparison_create_comparison_levels name_l dc = Inr levels
           \<and> ends_with_else levels))
   \<and> (EmailComparison_init ecol ekw = Inr ec \<longrightarrow>
        (\<exists>levels. EmailComparison_create_comparison_levels ec = Inr levels
           \<and> ends_with_else levels))
   \<and> (truthy_arg (PostcodeComparison_kwargs.km_thresholds pkw) \<longrightarrow>
        (\<exists>levels. PostcodeComparison_create_comparison_levels (PostcodeComparison_init pcol pkw)
             = Inr levels \<and> ends_with_else levels))
   \<and> (CustomComparison_create_comparison_levels (CustomComparison_init name entries d)
         = Inr levels \<longrightarrow>
        ends_with_else levels = (entries \<noteq> [] \<and> last entries = PyObj ElseLevel))"
proof (intro conjI impI)
  show "ends_with_else (ExactMatch_create_comparison_levels em)"
    by (simp add: ExactMatch_create_comparison_levels_def ends_with_else_def)
  show "ends_with_else (LevenshteinAtThresholds_create_comparison_levels lev)"
    by (simp add: LevenshteinAtThresholds_create_comparison_levels_def ends_with_else_def)
  show "ends_with_else (DatediffAtThresholds_create_comparison_levels dd)"
    by (simp add: DatediffAtThresholds_create_comparison_levels_def ends_with_else_def Let_def)
qed (auto intro: DateComparison_ends_with_else EmailComparison_ends_with_else
      PostcodeComparison_ends_with_else simp: CustomComparison_last)

text \<open>The statement at one instance of each class.\<close>

theorem create_comparison_levels_ends_with_else_witness:
  "ends_with_else (ExactMatch_create_comparison_levels
      (ExactMatch_init (ColStr ''first_name'') False))
   \<and> ends_with_else (LevenshteinAtThresholds_create_comparison_levels
      (LevenshteinAtThresholds_init (ColStr ''first_name'') (Many [PyInt 1, PyInt 2])))
   \<and> ends_with_else (DatediffAtThresholds_create_comparison_levels
      (DatediffAtThresholds_init (ColStr ''dob'')
         (DatediffAtThresholds_defaults (Many [''month'', ''year'']) (Many [PyInt 1, PyInt 1]))))
   \<and> (\<exists>dc. DateComparison_init (ColStr ''dob'') DateComparison_defaults = Inr dc
         \<and> (\<forall>name_l. \<exists>levels. DateComparison_create_comparison_levels name_l dc = Inr levels
               \<and> ends_with_else levels))
   \<and> (\<exists>ec. EmailComparison_init (ColStr ''email'') EmailComparison_defaults = Inr ec
         \<and> (\<exists>levels. EmailComparison_create_comparison_levels ec = Inr levels
               \<and> ends_with_else levels))
   \<and> truthy_arg (PostcodeComparison_kwargs.km_thresholds
        (PostcodeComparison_defaults\<lparr>PostcodeComparison_kwargs.km_thresholds := Many [PyInt 5]\<rparr>))
   \<and> (\<exists>levels. PostcodeComparison_create_comparison_levels
         (PostcodeComparison_init (ColStr ''postcode'')
            (PostcodeComparison_defaults
               \<lparr>PostcodeComparison_kwargs.km_thresholds := Many [PyInt 5]\<rparr>))
         = Inr levels \<and> ends_with_else levels)
   \<and> CustomComparison_create_comparison_levels
        (CustomComparison_init ''first_name''
           [PyDict [(''sql_condition'', PyStr ''first_name_l = first_name_r'')], PyObj ElseLevel]
           None)
        = Inr [CustomLevel [(''sql_condition'', PyStr ''first_name_l = first_name_r'')],
               ElseLevel]
   \<and> ends_with_else [CustomLevel [(''sql_condition'', PyStr ''first_name_l = first_name_r'')],
                      ElseLevel]"
proof -
  obtain dc where dc: "DateComparison_init (ColStr ''dob'') DateComparison_defaults = Inr dc"
    using DateComparison_defaults_Inr by blast
  obtain ec where ec: "EmailComparison_init (ColStr ''email'') EmailComparison_defaults = Inr ec"
    using EmailComparison_defaults_Inr by blast
  have km: "truthy_arg (PostcodeComparison_kwargs.km_thresholds
        (PostcodeComparison_defaults\<lparr>PostcodeComparison_kwargs.km_thresholds := Many [PyInt 5]\<rparr>))"
    by simp
  have cc: "CustomComparison_create_comparison_levels
        (CustomComparison_init ''first_name''
           [PyDict [(''sql_condition'', PyStr ''first_name_l = first_name_r'')], PyObj ElseLevel]
           None)
        = Inr [CustomLevel [(''sql_condition'', PyStr ''first_name_l = first_name_r'')],
               ElseLevel]"
    by (simp add: CustomComparison_create_comparison_levels_def CustomComparison_init_def)
  note th = create_comparison_levels_ends_with_else
    [where dcol = "ColStr ''dob''" and dkw = DateComparison_defaults and dc = dc
       and ecol = "ColStr ''email''" and ekw = EmailComparison_defaults and ec = ec
       and pkw = "PostcodeComparison_defaults
               \<lparr>PostcodeComparison_kwargs.km_thresholds := Many [PyInt 5]\<rparr>"
       and pcol = "ColStr ''postcode''"
       and name = "''first_name''"
       and entries = "[PyDict [(''sql_condition'', PyStr ''first_name_l = first_name_r'')],
                       PyObj ElseLevel]"
       and d = None
       and levels = "[CustomLevel [(''sql_condition'', PyStr ''first_name_l = first_name_r'')],
               ElseLevel]"]
  show ?thesis
  proof (intro conjI)
    show "\<exists>dc. DateComparison_init (ColStr ''dob'') DateComparison_defaults = Inr dc
         \<and> (\<forall>name_l. \<exists>levels. DateComparison_create_comparison_levels name_l dc = Inr levels
               \<and> ends_with_else levels)"
      using dc th by blast
    show "\<exists>ec. EmailComparison_init (ColStr ''email'') EmailComparison_defaults = Inr ec
         \<and> (\<exists>levels. EmailComparison_create_comparison_levels ec = Inr levels
               \<and> ends_with_else levels)"
      using ec th by blast
    show "\<exists>levels. PostcodeComparison_create_comparison_levels
         (PostcodeComparison_init (ColStr ''postcode'')
            (PostcodeComparison_defaults
               \<lparr>PostcodeComparison_kwargs.km_thresholds := Many [PyInt 5]\<rparr>))
         = Inr levels \<and> ends_with_else levels"
      using km th by blast
    show "ends_with_else [CustomLevel [(''sql_condition'', PyStr ''first_name_l = first_name_r'')],
                      ElseLevel]"
      using cc th by simp
  qed (use th km cc in blast)+
qed

text \<open>
  The claim as the specification states it fails on \<open>CustomComparison\<close>: with no levels it
  returns the empty list, and with a single dict it returns one \<open>CustomLevel\<close>, which is
  not the catch-all.
\<close>

theorem custom_comparison_no_else_counterexample:
  "CustomComparison_create_comparison_levels (CustomComparison_init ''first_name'' [] None)
     = Inr []
   \<and> \<not> ends_with_else []
   \<and> CustomComparison_create_comparison_levels
       (CustomComparison_init ''first_name''
          [PyDict [(''sql_condition'', PyStr ''first_name_l = first_name_r'')]] None)
     = Inr [CustomLevel [(''sql_condition'', PyStr ''first_name_l = first_name_r'')]]
   \<and> \<not> ends_with_else [CustomLevel [(''sql_condition'', PyStr ''first_name_l = first_name_r'')]]"
  by (simp add: CustomComparison_create_comparison_levels_def CustomComparison_init_def
      ends_with_else_def)

text \<open>
  C2. In the list of \<open>LevenshteinAtThresholds\<close>, and in the list of a \<open>DateComparison\<close> or
  \<open>EmailComparison\<close> constructed with \<open>include_exact_match_level\<close>, the \<open>ExactMatchLevel\<close> on
  the compared column stands at a position strictly before every fuzzy level.
\<close>

theorem exact_match_level_before_fuzzy_levels:
  "appears_before_fuzzy (ExactMatchLevel (LevenshteinAtThresholds.col_expression lev) None)
     (LevenshteinAtThresholds_create_comparison_levels lev)
   \<and> (DateComparison_init dcol dkw = Inr dc
        \<and> DateComparison_kwargs.include_exact_match_level dkw \<longrightarrow>
       (\<exists>levels. DateComparison_create_comparison_levels name_l dc = Inr levels
          \<and> appears_before_fuzzy (ExactMatchLevel (instantiate_if_str dcol) None) levels))
   \<and> (EmailComparison_init ecol ekw = Inr ec
        \<and> EmailComparison_kwargs.include_exact_match_level ekw \<longrightarrow>
       (\<exists>levels. EmailComparison_create_comparison_levels ec = Inr levels
          \<and> appears_before_fuzzy (ExactMatchLevel (instantiate_if_str ecol) None) levels))"
proof (intro conjI impI; (elim conjE)?)
  have "appears_before_fuzzy (ExactMatchLevel (LevenshteinAtThresholds.col_expression lev) None)
     ([NullLevel (LevenshteinAtThresholds.col_expression lev) None None]
      @ ExactMatchLevel (LevenshteinAtThresholds.col_expression lev) None
      # (map (LevenshteinLevel (LevenshteinAtThresholds.col_expression lev))
         (LevenshteinAtThresholds.thresholds lev) @ [ElseLevel]))"
    by (rule appears_before_fuzzyI) simp_all
  then show "appears_before_fuzzy (ExactMatchLevel (LevenshteinAtThresholds.col_expression lev) None)
     (LevenshteinAtThresholds_create_comparison_levels lev)"
    by (simp add: LevenshteinAtThresholds_create_comparison_levels_def)
next
  assume init: "DateComparison_init dcol dkw = Inr dc"
    and em: "DateComparison_kwargs.include_exact_match_level dkw"
  from DateComparison_levels[OF init, of name_l] em obtain fz post where
    lv: "DateComparison_create_comparison_levels name_l dc =
           Inr (([NullLevel (instantiate_if_str dcol) (DateComparison_kwargs.date_format dkw)
                   (Some (DateComparison_kwargs.invalid_dates_as_null dkw))]
                @ (if DateComparison_kwargs.separate_1st_january dkw
                   then [first_january_level name_l (instantiate_if_str dcol)] else []))
                @ ExactMatchLevel (instantiate_if_str dcol) None # post)"
    by auto
  have "appears_before_fuzzy (ExactMatchLevel (instantiate_if_str dcol) None)
          (([NullLevel (instantiate_if_str dcol) (DateComparison_kwargs.date_format dkw)
                   (Some (DateComparison_kwargs.invalid_dates_as_null dkw))]
                @ (if DateComparison_kwargs.separate_1st_january dkw
                   then [first_january_level name_l (instantiate_if_str dcol)] else []))
                @ ExactMatchLevel (instantiate_if_str dcol) None # post)"
    by (rule appears_before_fuzzyI) (simp_all add: first_january_level_def)
  with lv show "\<exists>levels. DateComparison_create_comparison_levels name_l dc = Inr levels
          \<and> appears_before_fuzzy (ExactMatchLevel (instantiate_if_str dcol) None) levels"
    by simp
next
  assume init: "EmailComparison_init ecol ekw = Inr ec"
    and em: "EmailComparison_kwargs.include_exact_match_level ekw"
  from EmailComparison_levels[OF init] em obtain post pat where
    lv: "EmailComparison_create_comparison_levels ec =
           Inr ([NullLevel (instantiate_if_str ecol) pat None]
                @ ExactMatchLevel (instantiate_if_str ecol) None # post)"
    by auto
  have "appears_before_fuzzy (ExactMatchLevel (instantiate_if_str ecol) None)
          ([NullLevel (instantiate_if_str ecol) pat None]
                @ ExactMatchLevel (instantiate_if_str ecol) None # post)"
    by (rule appears_before_fuzzyI) simp_all
  with lv show "\<exists>levels. EmailComparison_create_comparison_levels ec = Inr levels
          \<and> appears_before_fuzzy (ExactMatchLevel (instantiate_if_str ecol) None) levels"
    by simp
qed

text \<open>The three lists at the default thresholds (the e-mail comparison with the domain
  level switched on), each with its fuzzy levels after the exact match.\<close>

theorem exact_match_level_before_fuzzy_levels_witness:
  "LevenshteinAtThresholds_create_comparison_levels
     (LevenshteinAtThresholds_init (ColStr ''first_name'') (Many [PyInt 1, PyInt 2]))
   = [NullLevel (ColumnExpression ''first_name'' []) None None,
      ExactMatchLevel (ColumnExpression ''first_name'' []) None,
      LevenshteinLevel (ColumnExpression ''first_name'' []) (PyInt 1),
      LevenshteinLevel (ColumnExpression ''first_name'' []) (PyInt 2),
      ElseLevel]
   \<and> appears_before_fuzzy (ExactMatchLevel (ColumnExpression ''first_name'' []) None)
      [NullLevel (ColumnExpression ''first_name'' []) None None,
       ExactMatchLevel (ColumnExpression ''first_name'' []) None,
       LevenshteinLevel (ColumnExpression ''first_name'' []) (PyInt 1),
       LevenshteinLevel (ColumnExpression ''first_name'' []) (PyInt 2),
       ElseLevel]
   \<and> (\<exists>dc. DateComparison_init (ColStr ''dob'') DateComparison_defaults = Inr dc
        \<and> DateComparison_kwargs.include_exact_match_level DateComparison_defaults
        \<and> (\<forall>name_l.
             DateComparison_create_comparison_levels name_l dc =
               Inr [NullLevel (ColumnExpression ''dob'' []) None (Some False),
                    ExactMatchLevel (ColumnExpression ''dob'' []) None,
                    DamerauLevenshteinLevel (ColumnExpression ''dob'' []) (PyInt 1),
                    DatediffLevel (ColumnExpression ''dob'' []) (PyInt 1) ''month'',
                    DatediffLevel (ColumnExpression ''dob'' []) (PyInt 1) ''year'',
                    DatediffLevel (ColumnExpression ''dob'' []) (PyInt 10) ''year'',
                    ElseLevel])
        \<and> appears_before_fuzzy (ExactMatchLevel (ColumnExpression ''dob'' []) None)
                   [NullLevel (ColumnExpression ''dob'' []) None (Some False),
                    ExactMatchLevel (ColumnExpression ''dob'' []) None,
                    DamerauLevenshteinLevel (ColumnExpression ''dob'' []) (PyInt 1),
                    DatediffLevel (ColumnExpression ''dob'' []) (PyInt 1) ''month'',
                    DatediffLevel (ColumnExpression ''dob'' []) (PyInt 1) ''year'',
                    DatediffLevel (ColumnExpression ''dob'' []) (PyInt 10) ''year'',
                    ElseLevel])
   \<and> (\<exists>ec. EmailComparison_init (ColStr ''email'')
               (EmailComparison_defaults
                  \<lparr>EmailComparison_kwargs.include_domain_match_level := True\<rparr>) = Inr ec
        \<and> EmailComparison_kwargs.include_exact_match_level
             (EmailComparison_defaults
                \<lparr>EmailComparison_kwargs.include_domain_match_level := True\<rparr>)
        \<and> EmailComparison_create_comparison_levels ec =
               Inr [NullLevel (ColumnExpression ''email'' []) None None,
                    ExactMatchLevel (ColumnExpression ''email'' []) None,
                    ExactMatchLevel (ColumnExpression ''email'' [Regex_extract USERNAME_REGEX]) None,
                    JaroWinklerLevel (ColumnExpression ''email'' []) (PyFloat 0.88),
                    JaroWinklerLevel (ColumnExpression ''email'' [Regex_extract USERNAME_REGEX])
                      (PyFloat 0.88),
                    ExactMatchLevel (ColumnExpression ''email'' [Regex_extract DOMAIN_REGEX]) None,
                    ElseLevel]
        \<and> appears_before_fuzzy (ExactMatchLevel (ColumnExpression ''email'' []) None)
                   [NullLevel (ColumnExpression ''email'' []) None None,
                    ExactMatchLevel (ColumnExpression ''email'' []) None,
                    ExactMatchLevel (ColumnExpression ''email'' [Regex_extract USERNAME_REGEX]) None,
                    JaroWinklerLevel (ColumnExpression ''email'' []) (PyFloat 0.88),
                    JaroWinklerLevel (ColumnExpression ''email'' [Regex_extract USERNAME_REGEX])
                      (PyFloat 0.88),
                    ExactMatchLevel (ColumnExpression ''email'' [Regex_extract DOMAIN_REGEX]) None,
                    ElseLevel])"
proof -
  let ?ekw = "EmailComparison_defaults\<lparr>EmailComparison_kwargs.include_domain_match_level := True\<rparr>"
  obtain dc where dc: "DateComparison_init (ColStr ''dob'') DateComparison_defaults = Inr dc"
    using DateComparison_defaults_Inr by blast
  obtain ec where ec: "EmailComparison_init (ColStr ''email'') ?ekw = Inr ec"
    by (simp add: EmailComparison_init_def EmailComparison_defaults_def fuzzy_levels_def Let_def)
  have dem: "DateComparison_kwargs.include_exact_match_level DateComparison_defaults"
    by (simp add: DateComparison_defaults_def)
  have eem: "EmailComparison_kwargs.include_exact_match_level ?ekw"
    by (simp add: EmailComparison_defaults_def)
  have dlv: "DateComparison_create_comparison_levels name_l dc =
               Inr [NullLevel (ColumnExpression ''dob'' []) None (Some False),
                    ExactMatchLevel (ColumnExpression ''dob'' []) None,
                    DamerauLevenshteinLevel (ColumnExpression ''dob'' []) (PyInt 1),
                    DatediffLevel (ColumnExpression ''dob'' []) (PyInt 1) ''month'',
                    DatediffLevel (ColumnExpression ''dob'' []) (PyInt 1) ''year'',
                    DatediffLevel (ColumnExpression ''dob'' []) (PyInt 10) ''year'',
                    ElseLevel]" for name_l
    unfolding DateComparison_init_Inr(1)[OF dc]
    by (simp add: DateComparison_create_comparison_levels_def DateComparison_defaults_def
        fuzzy_levels_def getattr_def Let_def)
  have elv: "EmailComparison_create_comparison_levels ec =
               Inr [NullLevel (ColumnExpression ''email'' []) None None,
                    ExactMatchLevel (ColumnExpression ''email'' []) None,
                    ExactMatchLevel (ColumnExpression ''email'' [Regex_extract USERNAME_REGEX]) None,
                    JaroWinklerLevel (ColumnExpression ''email'' []) (PyFloat 0.88),
                    JaroWinklerLevel (ColumnExpression ''email'' [Regex_extract USERNAME_REGEX])
                      (PyFloat 0.88),
                    ExactMatchLevel (ColumnExpression ''email'' [Regex_extract DOMAIN_REGEX]) None,
                    ElseLevel]"
    unfolding EmailComparison_init_Inr(1)[OF ec]
    by (simp add: EmailComparison_create_comparison_levels_def EmailComparison_defaults_def
        fuzzy_levels_def getattr_def Let_def regex_extract_def)
  have llv: "LevenshteinAtThresholds_create_comparison_levels
     (LevenshteinAtThresholds_init (ColStr ''first_name'') (Many [PyInt 1, PyInt 2]))
   = [NullLevel (ColumnExpression ''first_name'' []) None None,
      ExactMatchLevel (ColumnExpression ''first_name'' []) None,
      LevenshteinLevel (ColumnExpression ''first_name'' []) (PyInt 1),
      LevenshteinLevel (ColumnExpression ''first_name'' []) (PyInt 2),
      ElseLevel]"
    by (simp add: LevenshteinAtThresholds_create_comparison_levels_def
        LevenshteinAtThresholds_init_def)
  note th = exact_match_level_before_fuzzy_levels
    [where lev = "LevenshteinAtThresholds_init (ColStr ''first_name'') (Many [PyInt 1, PyInt 2])"
       and dcol = "ColStr ''dob''" and dkw = DateComparison_defaults and dc = dc
       and ecol = "ColStr ''email''" and ekw = ?ekw and ec = ec]
  have l: "appears_before_fuzzy (ExactMatchLevel (ColumnExpression ''first_name'' []) None)
      [NullLevel (ColumnExpression ''first_name'' []) None None,
       ExactMatchLevel (ColumnExpression ''first_name'' []) None,
       LevenshteinLevel (ColumnExpression ''first_name'' []) (PyInt 1),
       LevenshteinLevel (ColumnExpression ''first_name'' []) (PyInt 2),
       ElseLevel]"
    using th llv by (simp add: LevenshteinAtThresholds_init_def)
  have d: "appears_before_fuzzy (ExactMatchLevel (ColumnExpression ''dob'' []) None)
                   [NullLevel (ColumnExpression ''dob'' []) None (Some False),
                    ExactMatchLevel (ColumnExpression ''dob'' []) None,
                    DamerauLevenshteinLevel (ColumnExpression ''dob'' []) (PyInt 1),
                    DatediffLevel (ColumnExpression ''dob'' []) (PyInt 1) ''month'',
                    DatediffLevel (ColumnExpression ''dob'' []) (PyInt 1) ''year'',
                    DatediffLevel (ColumnExpression ''dob'' []) (PyInt 10) ''year'',
                    ElseLevel]"
    using th[where name_l = raw_name] dc dem dlv by simp
  have e: "appears_before_fuzzy (ExactMatchLevel (ColumnExpression ''email'' []) None)
                   [NullLevel (ColumnExpression ''email'' []) None None,
                    ExactMatchLevel (ColumnExpression ''email'' []) None,
                    ExactMatchLevel (ColumnExpression ''email'' [Regex_extract USERNAME_REGEX]) None,
                    JaroWinklerLevel (ColumnExpression ''email'' []) (PyFloat 0.88),
                    JaroWinklerLevel (ColumnExpression ''email'' [Regex_extract USERNAME_REGEX])
                      (PyFloat 0.88),
                    ExactMatchLevel (ColumnExpression ''email'' [Regex_extract DOMAIN_REGEX]) None,
                    ElseLevel]"
    using th ec eem elv by simp
  show ?thesis
    using llv l dc dem dlv d ec eem elv e by blast
qed

text \<open>
  C5. Neither constructor compares the lengths of the date thresholds and the date metrics.
  \<open>DatediffAtThresholds\<close> is constructed without any check and its list holds one
  \<open>DatediffLevel\<close> for each pair of \<open>zip\<close>: as many as the shorter list has entries, the
  i-th with the i-th threshold and the i-th metric. \<open>DateComparison\<close> is constructed whenever
  its fuzzy metric passes (whatever the two lengths are), and its list holds the same
  \<open>DatediffLevel\<close>s.
\<close>

theorem datediff_levels_zip_truncation:
  fixes kw :: DatediffAtThresholds_kwargs and dkw :: DateComparison_kwargs and col :: col_name
  defines "ts \<equiv> ensure_is_iterable (DatediffAtThresholds_kwargs.date_thresholds kw)"
    and "ms \<equiv> ensure_is_iterable (DatediffAtThresholds_kwargs.date_metrics kw)"
    and "c \<equiv> (if DatediffAtThresholds_kwargs.cast_strings_to_dates kw
              then try_parse_date (instantiate_if_str col)
                     (DatediffAtThresholds_kwargs.date_format kw)
              else instantiate_if_str col)"
    and "found \<equiv> filter is_datediff_level
           (DatediffAtThresholds_create_comparison_levels (DatediffAtThresholds_init col kw))"
    and "dts \<equiv> ensure_is_iterable (DateComparison_kwargs.datediff_thresholds dkw)"
    and "dms \<equiv> ensure_is_iterable (DateComparison_kwargs.datediff_metrics dkw)"
  shows "length found = min (length ts) (length ms)
     \<and> (\<forall>i < min (length ts) (length ms). found ! i = DatediffLevel c (ts ! i) (ms ! i))
     \<and> (ensure_is_iterable (DateComparison_kwargs.fuzzy_thresholds dkw) = []
          \<or> DateComparison_kwargs.fuzzy_metric dkw
               \<in> {''damerau_levenshtein'', ''jaro'', ''jaro_winkler'', ''levenshtein''} \<longrightarrow>
        (\<exists>dc levels.
           DateComparison_init dcol dkw = Inr dc
           \<and> DateComparison_create_comparison_levels name_l dc = Inr levels
           \<and> length (filter is_datediff_level levels) = min (length dts) (length dms)
           \<and> (\<forall>i < min (length dts) (length dms).
                 filter is_datediff_level levels ! i
                   = DatediffLevel (instantiate_if_str dcol) (dts ! i) (dms ! i))))"
proof (intro conjI impI)
  have found: "found = map (\<lambda>(t, m). DatediffLevel c t m) (zip ts ms)"
    unfolding found_def DatediffAtThresholds_datediff_levels
    by (simp add: DatediffAtThresholds_init_def Let_def ts_def ms_def c_def)
  show "length found = min (length ts) (length ms)"
    by (simp add: found)
  show "\<forall>i < min (length ts) (length ms). found ! i = DatediffLevel c (ts ! i) (ms ! i)"
    by (simp add: found)
next
  assume "ensure_is_iterable (DateComparison_kwargs.fuzzy_thresholds dkw) = []
          \<or> DateComparison_kwargs.fuzzy_metric dkw
               \<in> {''damerau_levenshtein'', ''jaro'', ''jaro_winkler'', ''levenshtein''}"
  then have "ensure_is_iterable (DateComparison_kwargs.fuzzy_thresholds dkw) = []
           \<or> map_of fuzzy_levels (DateComparison_kwargs.fuzzy_metric dkw) \<noteq> None"
    using map_of_fuzzy_levels_None[of "DateComparison_kwargs.fuzzy_metric dkw"] by blast
  then obtain dc where dc: "DateComparison_init dcol dkw = Inr dc"
    using DateComparison_init_ok by blast
  from DateComparison_datediff_levels[OF dc, of name_l] obtain levels where
    lv: "DateComparison_create_comparison_levels name_l dc = Inr levels"
    and dd: "filter is_datediff_level levels =
               map (\<lambda>(t, m). DatediffLevel (instantiate_if_str dcol) t m) (zip dts dms)"
    unfolding dts_def dms_def by blast
  show "\<exists>dc levels.
           DateComparison_init dcol dkw = Inr dc
           \<and> DateComparison_create_comparison_levels name_l dc = Inr levels
           \<and> length (filter is_datediff_level levels) = min (length dts) (length dms)
           \<and> (\<forall>i < min (length dts) (length dms).
                 filter is_datediff_level levels ! i
                   = DatediffLevel (instantiate_if_str dcol) (dts ! i) (dms ! i))"
    using dc lv by (intro exI[of _ dc] exI[of _ levels]) (simp add: dd)
qed

text \<open>
  Three thresholds against two metrics: two \<open>DatediffLevel\<close>s, the threshold \<open>10\<close> dropped.
\<close>

theorem datediff_levels_zip_truncation_witness:
  "length (ensure_is_iterable (Many [PyInt 1, PyInt 1, PyInt 10]))
     \<noteq> length (ensure_is_iterable (Many [''month'', ''year'']))
   \<and> DatediffAtThresholds_create_comparison_levels
       (DatediffAtThresholds_init (ColStr ''dob'')
          (DatediffAtThresholds_defaults (Many [''month'', ''year''])
             (Many [PyInt 1, PyInt 1, PyInt 10])))
     = [NullLevel (ColumnExpression ''dob'' [Try_parse_date None]) None None,
        ExactMatchLevel (ColumnExpression ''dob'' []) (Some False),
        DatediffLevel (ColumnExpression ''dob'' []) (PyInt 1) ''month'',
        DatediffLevel (ColumnExpression ''dob'' []) (PyInt 1) ''year'',
        ElseLevel]
   \<and> length (filter is_datediff_level
        (DatediffAtThresholds_create_comparison_levels
          (DatediffAtThresholds_init (ColStr ''dob'')
             (DatediffAtThresholds_defaults (Many [''month'', ''year''])
                (Many [PyInt 1, PyInt 1, PyInt 10]))))) = 2
   \<and> (\<exists>dc. DateComparison_init (ColStr ''dob'')
              (DateComparison_defaults
                 \<lparr>DateComparison_kwargs.datediff_metrics := Many [''month'', ''year'']\<rparr>) = Inr dc
        \<and> (\<forall>name_l. \<exists>levels.
              DateComparison_create_comparison_levels name_l dc = Inr levels
              \<and> length (filter is_datediff_level levels) = 2
              \<and> filter is_datediff_level levels ! 0
                   = DatediffLevel (ColumnExpression ''dob'' []) (PyInt 1) ''month''
              \<and> filter is_datediff_level levels ! 1
                   = DatediffLevel (ColumnExpression ''dob'' []) (PyInt 1) ''year''))"
proof -
  let ?kw = "DatediffAtThresholds_defaults (Many [''month'', ''year''])
               (Many [PyInt 1, PyInt 1, PyInt 10])"
  let ?dkw = "DateComparison_defaults
                 \<lparr>DateComparison_kwargs.datediff_metrics := Many [''month'', ''year'']\<rparr>"
  note th = datediff_levels_zip_truncation
    [where kw = ?kw and col = "ColStr ''dob''" and dkw = ?dkw and dcol = "ColStr ''dob''"]
  have lv: "DatediffAtThresholds_create_comparison_levels
       (DatediffAtThresholds_init (ColStr ''dob'') ?kw)
     = [NullLevel (ColumnExpression ''dob'' [Try_parse_date None]) None None,
        ExactMatchLevel (ColumnExpression ''dob'' []) (Some False),
        DatediffLevel (ColumnExpression ''dob'' []) (PyInt 1) ''month'',
        DatediffLevel (ColumnExpression ''dob'' []) (PyInt 1) ''year'',
        ElseLevel]"
    by (simp add: DatediffAtThresholds_create_comparison_levels_def DatediffAtThresholds_init_def
        DatediffAtThresholds_defaults_def try_parse_date_def Let_def)
  have n: "length (filter is_datediff_level
        (DatediffAtThresholds_create_comparison_levels
          (DatediffAtThresholds_init (ColStr ''dob'') ?kw))) = 2"
    using th by (simp add: DatediffAtThresholds_defaults_def)
  have d: "\<exists>dc. DateComparison_init (ColStr ''dob'') ?dkw = Inr dc
        \<and> (\<forall>name_l. \<exists>levels.
              DateComparison_create_comparison_levels name_l dc = Inr levels
              \<and> length (filter is_datediff_level levels) = 2
              \<and> filter is_datediff_level levels ! 0
                   = DatediffLevel (ColumnExpression ''dob'' []) (PyInt 1) ''month''
              \<and> filter is_datediff_level levels ! 1
                   = DatediffLevel (ColumnExpression ''dob'' []) (PyInt 1) ''year'')"
  proof -
    obtain dc where dc: "DateComparison_init (ColStr ''dob'') ?dkw = Inr dc"
      by (simp add: DateComparison_init_def DateComparison_defaults_def fuzzy_levels_def Let_def)
    have "\<exists>levels.
              DateComparison_create_comparison_levels name_l dc = Inr levels
              \<and> length (filter is_datediff_level levels) = 2
              \<and> filter is_datediff_level levels ! 0
                   = DatediffLevel (ColumnExpression ''dob'' []) (PyInt 1) ''month''
              \<and> filter is_datediff_level levels ! 1
                   = DatediffLevel (ColumnExpression ''dob'' []) (PyInt 1) ''year''" for name_l
      using datediff_levels_zip_truncation
        [where kw = ?kw and col = "ColStr ''dob''" and dkw = ?dkw and dcol = "ColStr ''dob''"
           and name_l = name_l] dc
      by (auto simp: DateComparison_defaults_def)
    with dc show ?thesis by blast
  qed
  show ?thesis using lv n d by simp
qed

text \<open>
  C6. A \<open>DateComparison\<close> constructed with \<open>separate_1st_january\<close> and
  \<open>include_exact_match_level\<close> returns a list whose element 0 is the \<open>NullLevel\<close>, whose
  element 1 is the \<open>And\<close> of the 1st-January condition and an exact match, and whose
  element 2 is the general \<open>ExactMatchLevel\<close>.
\<close>

theorem first_january_level_before_exact_match:
  assumes "DateComparison_init col kw = Inr dc"
    and "DateComparison_kwargs.separate_1st_january kw"
    and "DateComparison_kwargs.include_exact_match_level kw"
  shows "\<exists>levels. DateComparison_create_comparison_levels name_l dc = Inr levels
           \<and> 2 < length levels
           \<and> levels ! 0 = NullLevel (instantiate_if_str col)
                             (DateComparison_kwargs.date_format kw)
                             (Some (DateComparison_kwargs.invalid_dates_as_null kw))
           \<and> levels ! 1 =
               And [CustomLevel
                      [(''sql_condition'',
                        PyStr (''SUBSTR('' @ name_l (instantiate_if_str col)
                               @ '', 6, 5) = '01-01'' @ [CHR 0x27])),
                       (''label_for_charts'', PyStr ''Match 1st Jan.'')],
                    ExactMatchLevel (instantiate_if_str col) None]
           \<and> levels ! 2 = ExactMatchLevel (instantiate_if_str col) None"
  using DateComparison_levels[OF assms(1), of name_l] assms(2,3)
  by (auto simp: first_january_level_def)

text \<open>
  The defaults with \<open>separate_1st_january=True\<close>.
\<close>

theorem first_january_level_before_exact_match_witness:
  "\<exists>dc. DateComparison_init (ColStr ''dob'')
          (DateComparison_defaults\<lparr>DateComparison_kwargs.separate_1st_january := True\<rparr>) = Inr dc
     \<and> DateComparison_kwargs.separate_1st_january
          (DateComparison_defaults\<lparr>DateComparison_kwargs.separate_1st_january := True\<rparr>)
     \<and> DateComparison_kwargs.include_exact_match_level
          (DateComparison_defaults\<lparr>DateComparison_kwargs.separate_1st_january := True\<rparr>)
     \<and> (\<forall>name_l. \<exists>levels.
           DateComparison_create_comparison_levels name_l dc = Inr levels
           \<and> 2 < length levels
           \<and> levels ! 0 = NullLevel (ColumnExpression ''dob'' []) None (Some False)
           \<and> levels ! 1 =
               And [CustomLevel
                      [(''sql_condition'',
                        PyStr (''SUBSTR('' @ name_l (ColumnExpression ''dob'' [])
                               @ '', 6, 5) = '01-01'' @ [CHR 0x27])),
                       (''label_for_charts'', PyStr ''Match 1st Jan.'')],
                    ExactMatchLevel (ColumnExpression ''dob'' []) None]
           \<and> levels ! 2 = ExactMatchLevel (ColumnExpression ''dob'' []) None)"
proof -
  let ?kw = "DateComparison_defaults\<lparr>DateComparison_kwargs.separate_1st_january := True\<rparr>"
  obtain dc where dc: "DateComparison_init (ColStr ''dob'') ?kw = Inr dc"
    by (simp add: DateComparison_init_def DateComparison_defaults_def fuzzy_levels_def Let_def)
  have s: "DateComparison_kwargs.separate_1st_january ?kw"
    and e: "DateComparison_kwargs.include_exact_match_level ?kw"
    by (simp_all add: DateComparison_defaults_def)
  show ?thesis
    using dc s e first_january_level_before_exact_match[OF dc s e]
    by (intro exI[of _ dc]) (simp add: DateComparison_defaults_def)
qed

section \<open>Entries of a custom comparison\<close>

text \<open>
  C7. \<open>_convert_to_creator\<close> keeps a \<open>ComparisonLevelCreator\<close>, turns a dict into the
  \<open>CustomLevel\<close> of its entries as keyword arguments, and raises for anything else a
  \<open>ValueError\<close> whose message has the type of the entry and the entry as fields.
  \<open>create_comparison_levels\<close> converts every entry of \<open>comparison_levels\<close> in order: when all
  are of the two kinds it returns the converted list, and otherwise it raises the
  \<open>ValueError\<close> of the first entry that is not.
\<close>

theorem custom_comparison_normalises_entries:
  "convert_to_creator (PyObj level) = Inr level
   \<and> convert_to_creator (PyDict kwargs) = Inr (CustomLevel kwargs)
   \<and> (\<not> is_obj cl \<and> \<not> is_dict cl \<longrightarrow>
        convert_to_creator cl =
          Inl (ValueError
            [Lit ''`comparison_levels` entries must be `dict` or `ComparisonLevelCreator, '',
             Lit ''but found type '', Field_type cl, Lit '' for entry '', Field_str cl]))
   \<and> (list_all (\<lambda>c. is_obj c \<or> is_dict c) entries \<longrightarrow>
        (\<exists>levels. CustomComparison_create_comparison_levels
                    (CustomComparison_init name entries d) = Inr levels
           \<and> list_all2 (\<lambda>c level. convert_to_creator c = Inr level) entries levels))
   \<and> (list_all (\<lambda>c. is_obj c \<or> is_dict c) pre \<and> \<not> is_obj bad \<and> \<not> is_dict bad \<longrightarrow>
        CustomComparison_create_comparison_levels
          (CustomComparison_init name (pre @ bad # post) d) =
          Inl (ValueError
            [Lit ''`comparison_levels` entries must be `dict` or `ComparisonLevelCreator, '',
             Lit ''but found type '', Field_type bad, Lit '' for entry '', Field_str bad]))"
proof (intro conjI impI; (elim conjE)?)
  show "convert_to_creator (PyObj level) = Inr level" by simp
  show "convert_to_creator (PyDict kwargs) = Inr (CustomLevel kwargs)" by simp
next
  assume "\<not> is_obj cl" "\<not> is_dict cl"
  then show "convert_to_creator cl =
          Inl (ValueError
            [Lit ''`comparison_levels` entries must be `dict` or `ComparisonLevelCreator, '',
             Lit ''but found type '', Field_type cl, Lit '' for entry '', Field_str cl])"
    using convert_to_creator_bad[of cl] by (simp add: convert_to_creator_message_def)
next
  assume "list_all (\<lambda>c. is_obj c \<or> is_dict c) entries"
  then have "list_all (\<lambda>c. \<exists>level. convert_to_creator c = Inr level) entries"
    by (simp add: list_all_iff convert_to_creator_good)
  from comprehension_all_Inr[OF this]
  show "\<exists>levels. CustomComparison_create_comparison_levels
                    (CustomComparison_init name entries d) = Inr levels
           \<and> list_all2 (\<lambda>c level. convert_to_creator c = Inr level) entries levels"
    by (simp add: CustomComparison_create_comparison_levels_def CustomComparison_init_def)
next
  assume pre: "list_all (\<lambda>c. is_obj c \<or> is_dict c) pre"
    and bad: "\<not> is_obj bad" "\<not> is_dict bad"
  from pre have "list_all (\<lambda>c. \<exists>level. convert_to_creator c = Inr level) pre"
    by (simp add: list_all_iff convert_to_creator_good)
  from comprehension_first_Inl[OF this convert_to_creator_bad[OF bad], of post]
  show "CustomComparison_create_comparison_levels
          (CustomComparison_init name (pre @ bad # post) d) =
          Inl (ValueError
            [Lit ''`comparison_levels` entries must be `dict` or `ComparisonLevelCreator, '',
             Lit ''but found type '', Field_type bad, Lit '' for entry '', Field_str bad])"
    by (simp add: CustomComparison_create_comparison_levels_def CustomComparison_init_def
        convert_to_creator_message_def)
qed

text \<open>
  A level, a dict and a catch-all are converted; a string among the entries is rejected.
\<close>

theorem custom_comparison_normalises_entries_witness:
  "\<not> is_obj (PyStr ''else'' :: ComparisonLevelCreator pyval)
   \<and> \<not> is_dict (PyStr ''else'' :: ComparisonLevelCreator pyval)
   \<and> convert_to_creator (PyStr ''else'') =
          Inl (ValueError
            [Lit ''`comparison_levels` entries must be `dict` or `ComparisonLevelCreator, '',
             Lit ''but found type '', Field_type (PyStr ''else''), Lit '' for entry '',
             Field_str (PyStr ''else'')])
   \<and> list_all (\<lambda>c. is_obj c \<or> is_dict c)
        [PyObj (NullLevel (ColumnExpression ''city'' []) None None),
         PyDict [(''sql_condition'', PyStr ''city_l = city_r''),
                 (''label_for_charts'', PyStr ''Exact match'')],
         PyObj ElseLevel]
   \<and> CustomComparison_create_comparison_levels
        (CustomComparison_init ''city''
           [PyObj (NullLevel (ColumnExpression ''city'' []) None None),
            PyDict [(''sql_condition'', PyStr ''city_l = city_r''),
                    (''label_for_charts'', PyStr ''Exact match'')],
            PyObj ElseLevel] None)
      = Inr [NullLevel (ColumnExpression ''city'' []) None None,
             CustomLevel [(''sql_condition'', PyStr ''city_l = city_r''),
                          (''label_for_charts'', PyStr ''Exact match'')],
             ElseLevel]
   \<and> CustomComparison_create_comparison_levels
        (CustomComparison_init ''city''
           ([PyObj (NullLevel (ColumnExpression ''city'' []) None None)]
            @ PyStr ''else'' # [PyNum (PyInt 3)]) None)
      = Inl (ValueError
            [Lit ''`comparison_levels` entries must be `dict` or `ComparisonLevelCreator, '',
             Lit ''but found type '', Field_type (PyStr ''else''), Lit '' for entry '',
             Field_str (PyStr ''else'')])"
  using custom_comparison_normalises_entries
    [where cl = "PyStr ''else''" and bad = "PyStr ''else''"
       and pre = "[PyObj (NullLevel (ColumnExpression ''city'' []) None None)]"
       and post = "[PyNum (PyInt 3)]"
       and name = "''city''" and d = None
       and entries = "[PyObj (NullLevel (ColumnExpression ''city'' []) None None),
            PyDict [(''sql_condition'', PyStr ''city_l = city_r''),
                    (''label_for_charts'', PyStr ''Exact match'')],
            PyObj ElseLevel]"]
  by (simp add: CustomComparison_create_comparison_levels_def CustomComparison_init_def)

section \<open>Arguments of the constructors\<close>

text \<open>
  C4 (as amended). The constructors of \<open>DateComparison\<close> and \<open>EmailComparison\<close> fail exactly
  when the list of fuzzy thresholds is non-empty and \<open>fuzzy_metric\<close> is none of
  \<open>damerau_levenshtein\<close>, \<open>jaro\<close>, \<open>jaro_winkler\<close>, \<open>levenshtein\<close>; the error is then a
  \<open>ValueError\<close> whose message gives the rejected name and lists the four valid names.
\<close>

theorem invalid_fuzzy_metric_rejected:
  "isl (DateComparison_init dcol dkw) =
     (ensure_is_iterable (DateComparison_kwargs.fuzzy_thresholds dkw) \<noteq> []
      \<and> DateComparison_kwargs.fuzzy_metric dkw
          \<notin> {''damerau_levenshtein'', ''jaro'', ''jaro_winkler'', ''levenshtein''})
   \<and> (ensure_is_iterable (DateComparison_kwargs.fuzzy_thresholds dkw) \<noteq> []
      \<and> DateComparison_kwargs.fuzzy_metric dkw
          \<notin> {''damerau_levenshtein'', ''jaro'', ''jaro_winkler'', ''levenshtein''} \<longrightarrow>
      DateComparison_init dcol dkw =
        Inl (ValueError
          [Lit ''Invalid value for '', Lit ''fuzzy_metric='',
           Field_repr (PyStr (DateComparison_kwargs.fuzzy_metric dkw)), Lit ''.  '',
           Lit ''Must choose one of: '',
           Lit ([CHR 0x27] @ ''damerau_levenshtein', 'jaro', 'jaro_winkler', 'levenshtein''
                @ [CHR 0x27]),
           Lit ''.'']))
   \<and> isl (EmailComparison_init ecol ekw) =
     (ensure_is_iterable (EmailComparison_kwargs.fuzzy_thresholds ekw) \<noteq> []
      \<and> EmailComparison_kwargs.fuzzy_metric ekw
          \<notin> {''damerau_levenshtein'', ''jaro'', ''jaro_winkler'', ''levenshtein''})
   \<and> (ensure_is_iterable (EmailComparison_kwargs.fuzzy_thresholds ekw) \<noteq> []
      \<and> EmailComparison_kwargs.fuzzy_metric ekw
          \<notin> {''damerau_levenshtein'', ''jaro'', ''jaro_winkler'', ''levenshtein''} \<longrightarrow>
      EmailComparison_init ecol ekw =
        Inl (ValueError
          [Lit ''Invalid value for '', Lit ''fuzzy_metric='',
           Field_repr (PyStr (EmailComparison_kwargs.fuzzy_metric ekw)), Lit ''.  '',
           Lit ''Must choose one of: '',
           Lit ([CHR 0x27] @ ''damerau_levenshtein', 'jaro', 'jaro_winkler', 'levenshtein''
                @ [CHR 0x27]),
           Lit ''.'']))"
proof -
  have d: "map_of fuzzy_levels (DateComparison_kwargs.fuzzy_metric dkw) = None
        \<longleftrightarrow> DateComparison_kwargs.fuzzy_metric dkw
          \<notin> {''damerau_levenshtein'', ''jaro'', ''jaro_winkler'', ''levenshtein''}"
    by (rule map_of_fuzzy_levels_None)
  have e: "map_of fuzzy_levels (EmailComparison_kwargs.fuzzy_metric ekw) = None
        \<longleftrightarrow> EmailComparison_kwargs.fuzzy_metric ekw
          \<notin> {''damerau_levenshtein'', ''jaro'', ''jaro_winkler'', ''levenshtein''}"
    by (rule map_of_fuzzy_levels_None)
  show ?thesis
    unfolding d[symmetric] e[symmetric]
    by (auto simp: DateComparison_init_def EmailComparison_init_def Let_def
        invalid_fuzzy_metric_message_def AVAILABLE_METRICS_STRING_eq split: option.splits)
qed

text \<open>The metric \<open>soundex\<close> with the default thresholds is rejected by both.\<close>

theorem invalid_fuzzy_metric_rejected_witness:
  "ensure_is_iterable (DateComparison_kwargs.fuzzy_thresholds
       (DateComparison_defaults\<lparr>DateComparison_kwargs.fuzzy_metric := ''soundex''\<rparr>)) \<noteq> []
   \<and> ''soundex'' \<notin> {''damerau_levenshtein'', ''jaro'', ''jaro_winkler'', ''levenshtein''}
   \<and> DateComparison_init (ColStr ''dob'')
        (DateComparison_defaults\<lparr>DateComparison_kwargs.fuzzy_metric := ''soundex''\<rparr>) =
        Inl (ValueError
          [Lit ''Invalid value for '', Lit ''fuzzy_metric='',
           Field_repr (PyStr ''soundex''), Lit ''.  '',
           Lit ''Must choose one of: '',
           Lit ([CHR 0x27] @ ''damerau_levenshtein', 'jaro', 'jaro_winkler', 'levenshtein''
                @ [CHR 0x27]),
           Lit ''.''])
   \<and> ensure_is_iterable (EmailComparison_kwargs.fuzzy_thresholds
       (EmailComparison_defaults\<lparr>EmailComparison_kwargs.fuzzy_metric := ''soundex''\<rparr>)) \<noteq> []
   \<and> EmailComparison_init (ColStr ''email'')
        (EmailComparison_defaults\<lparr>EmailComparison_kwargs.fuzzy_metric := ''soundex''\<rparr>) =
        Inl (ValueError
          [Lit ''Invalid value for '', Lit ''fuzzy_metric='',
           Field_repr (PyStr ''soundex''), Lit ''.  '',
           Lit ''Must choose one of: '',
           Lit ([CHR 0x27] @ ''damerau_levenshtein', 'jaro', 'jaro_winkler', 'levenshtein''
                @ [CHR 0x27]),
           Lit ''.''])"
  using invalid_fuzzy_metric_rejected
    [of "ColStr ''dob''" "DateComparison_defaults\<lparr>DateComparison_kwargs.fuzzy_metric := ''soundex''\<rparr>"
        "ColStr ''email''"
        "EmailComparison_defaults\<lparr>EmailComparison_kwargs.fuzzy_metric := ''soundex''\<rparr>"]
  by (simp add: DateComparison_defaults_def EmailComparison_defaults_def)

text \<open>
  The claim as the specification states it fails: with an empty list of fuzzy thresholds
  the metric name is never looked up, and both constructors accept \<open>soundex\<close>.
\<close>

theorem invalid_fuzzy_metric_accepted_counterexample:
  "''soundex'' \<notin> {''damerau_levenshtein'', ''jaro'', ''jaro_winkler'', ''levenshtein''}
   \<and> \<not> isl (DateComparison_init (ColStr ''dob'')
        (DateComparison_defaults\<lparr>DateComparison_kwargs.fuzzy_metric := ''soundex'',
                                  DateComparison_kwargs.fuzzy_thresholds := Many []\<rparr>))
   \<and> \<not> isl (EmailComparison_init (ColStr ''email'')
        (EmailComparison_defaults\<lparr>EmailComparison_kwargs.fuzzy_metric := ''soundex'',
                                   EmailComparison_kwargs.fuzzy_thresholds := Many []\<rparr>))"
  by (simp add: DateComparison_init_def EmailComparison_init_def DateComparison_defaults_def
      EmailComparison_defaults_def Let_def)

text \<open>
  C8. \<open>invalid_postcodes_as_null\<close> and \<open>invalid_emails_as_null\<close> default to \<open>False\<close>,
  \<open>invalid_dates_as_null\<close> to \<open>True\<close> in \<open>DatediffAtThresholds\<close> and to \<open>False\<close> in
  \<open>DateComparison\<close>. \<open>PostcodeComparison\<close> and \<open>EmailComparison\<close> keep their validity regex
  only when the flag is true, and the \<open>NullLevel\<close> at the head of their lists receives that
  regex when the flag is true and no pattern otherwise.
\<close>

theorem invalid_as_null_defaults:
  "\<not> PostcodeComparison_kwargs.invalid_postcodes_as_null PostcodeComparison_defaults
   \<and> \<not> EmailComparison_kwargs.invalid_emails_as_null EmailComparison_defaults
   \<and> DatediffAtThresholds_kwargs.invalid_dates_as_null
        (DatediffAtThresholds_defaults date_metrics' date_thresholds')
   \<and> \<not> DateComparison_kwargs.invalid_dates_as_null DateComparison_defaults
   \<and> PostcodeComparison.valid_postcode_regex (PostcodeComparison_init pcol pkw) =
        (if PostcodeComparison_kwargs.invalid_postcodes_as_null pkw
         then Some (PostcodeComparison_kwargs.valid_postcode_regex pkw) else None)
   \<and> (truthy_arg (PostcodeComparison_kwargs.km_thresholds pkw) \<longrightarrow>
        (\<exists>rest. PostcodeComparison_create_comparison_levels (PostcodeComparison_init pcol pkw) =
           Inr (NullLevel (instantiate_if_str pcol)
                  (if PostcodeComparison_kwargs.invalid_postcodes_as_null pkw
                   then Some (PostcodeComparison_kwargs.valid_postcode_regex pkw) else None) None
                # rest)))
   \<and> (EmailComparison_init ecol ekw = Inr ec \<longrightarrow>
        EmailComparison.valid_email_regex ec =
          (if EmailComparison_kwargs.invalid_emails_as_null ekw
           then Some (EmailComparison_kwargs.valid_email_regex ekw) else None)
        \<and> (\<exists>rest. EmailComparison_create_comparison_levels ec =
             Inr (NullLevel (instantiate_if_str ecol)
                    (if EmailComparison_kwargs.invalid_emails_as_null ekw
                     then Some (EmailComparison_kwargs.valid_email_regex ekw) else None) None
                  # rest)))"
proof (intro conjI impI)
  show "PostcodeComparison.valid_postcode_regex (PostcodeComparison_init pcol pkw) =
        (if PostcodeComparison_kwargs.invalid_postcodes_as_null pkw
         then Some (PostcodeComparison_kwargs.valid_postcode_regex pkw) else None)"
    by (simp add: PostcodeComparison_init_def Let_def split: prod.splits)
next
  assume "truthy_arg (PostcodeComparison_kwargs.km_thresholds pkw)"
  from PostcodeComparison_levels[OF this, of pcol]
  show "\<exists>rest. PostcodeComparison_create_comparison_levels (PostcodeComparison_init pcol pkw) =
           Inr (NullLevel (instantiate_if_str pcol)
                  (if PostcodeComparison_kwargs.invalid_postcodes_as_null pkw
                   then Some (PostcodeComparison_kwargs.valid_postcode_regex pkw) else None) None
                # rest)"
    by blast
next
  assume init: "EmailComparison_init ecol ekw = Inr ec"
  show "EmailComparison.valid_email_regex ec =
          (if EmailComparison_kwargs.invalid_emails_as_null ekw
           then Some (EmailComparison_kwargs.valid_email_regex ekw) else None)"
    using EmailComparison_init_Inr(1)[OF init] by simp
  from EmailComparison_levels[OF init]
  show "\<exists>rest. EmailComparison_create_comparison_levels ec =
             Inr (NullLevel (instantiate_if_str ecol)
                    (if EmailComparison_kwargs.invalid_emails_as_null ekw
                     then Some (EmailComparison_kwargs.valid_email_regex ekw) else None) None
                  # rest)"
    by auto
qed (simp_all add: PostcodeComparison_defaults_def EmailComparison_defaults_def
      DatediffAtThresholds_defaults_def DateComparison_defaults_def)

text \<open>
  Both comparisons with the flag switched on and with the flag at its default.
\<close>

theorem invalid_as_null_defaults_witness:
  "truthy_arg (PostcodeComparison_kwargs.km_thresholds
     (PostcodeComparison_defaults
        \<lparr>PostcodeComparison_kwargs.invalid_postcodes_as_null := True,
         PostcodeComparison_kwargs.lat_col := Some (ColStr ''lat''),
         PostcodeComparison_kwargs.long_col := Some (ColStr ''long''),
         PostcodeComparison_kwargs.km_thresholds := Many [PyInt 5]\<rparr>))
   \<and> PostcodeComparison_create_comparison_levels
       (PostcodeComparison_init (ColStr ''postcode'')
          (PostcodeComparison_defaults
             \<lparr>PostcodeComparison_kwargs.invalid_postcodes_as_null := True,
              PostcodeComparison_kwargs.lat_col := Some (ColStr ''lat''),
              PostcodeComparison_kwargs.long_col := Some (ColStr ''long''),
              PostcodeComparison_kwargs.km_thresholds := Many [PyInt 5]\<rparr>))
     = Inr [NullLevel (ColumnExpression ''postcode'' []) (Some VALID_POSTCODE_REGEX) None,
            ExactMatchLevel (ColumnExpression ''postcode'' []) None,
            ExactMatchLevel (ColumnExpression ''postcode'' [Regex_extract SECTOR_REGEX]) None,
            ExactMatchLevel (ColumnExpression ''postcode'' [Regex_extract DISTRICT_REGEX]) None,
            ExactMatchLevel (ColumnExpression ''postcode'' [Regex_extract AREA_REGEX]) None,
            DistanceInKMLevel (Some (ColumnExpression ''lat'' []))
              (Some (ColumnExpression ''long'' [])) (PyInt 5),
            ElseLevel]
   \<and> (\<exists>rest. PostcodeComparison_create_comparison_levels
       (PostcodeComparison_init (ColStr ''postcode'')
          (PostcodeComparison_defaults
             \<lparr>PostcodeComparison_kwargs.km_thresholds := Many [PyInt 5]\<rparr>))
     = Inr (NullLevel (ColumnExpression ''postcode'' []) None None # rest))
   \<and> (\<exists>ec. EmailComparison_init (ColStr ''email'')
              (EmailComparison_defaults\<lparr>EmailComparison_kwargs.invalid_emails_as_null := True\<rparr>)
              = Inr ec
         \<and> EmailComparison.valid_email_regex ec = Some DEFAULT_EMAIL_REGEX
         \<and> (\<exists>rest. EmailComparison_create_comparison_levels ec =
              Inr (NullLevel (ColumnExpression ''email'' []) (Some DEFAULT_EMAIL_REGEX) None
                   # rest)))
   \<and> (\<exists>ec. EmailComparison_init (ColStr ''email'') EmailComparison_defaults = Inr ec
         \<and> EmailComparison.valid_email_regex ec = None
         \<and> (\<exists>rest. EmailComparison_create_comparison_levels ec =
              Inr (NullLevel (ColumnExpression ''email'' []) None None # rest)))"
proof -
  let ?pkw = "PostcodeComparison_defaults
             \<lparr>PostcodeComparison_kwargs.invalid_postcodes_as_null := True,
              PostcodeComparison_kwargs.lat_col := Some (ColStr ''lat''),
              PostcodeComparison_kwargs.long_col := Some (ColStr ''long''),
              PostcodeComparison_kwargs.km_thresholds := Many [PyInt 5]\<rparr>"
  let ?pkw' = "PostcodeComparison_defaults
             \<lparr>PostcodeComparison_kwargs.km_thresholds := Many [PyInt 5]\<rparr>"
  let ?ekw = "EmailComparison_defaults\<lparr>EmailComparison_kwargs.invalid_emails_as_null := True\<rparr>"
  have km: "truthy_arg (PostcodeComparison_kwargs.km_thresholds ?pkw)"
    and km': "truthy_arg (PostcodeComparison_kwargs.km_thresholds ?pkw')"
    by simp_all
  have plv: "PostcodeComparison_create_comparison_levels
       (PostcodeComparison_init (ColStr ''postcode'') ?pkw)
     = Inr [NullLevel (ColumnExpression ''postcode'' []) (Some VALID_POSTCODE_REGEX) None,
            ExactMatchLevel (ColumnExpression ''postcode'' []) None,
            ExactMatchLevel (ColumnExpression ''postcode'' [Regex_extract SECTOR_REGEX]) None,
            ExactMatchLevel (ColumnExpression ''postcode'' [Regex_extract DISTRICT_REGEX]) None,
            ExactMatchLevel (ColumnExpression ''postcode'' [Regex_extract AREA_REGEX]) None,
            DistanceInKMLevel (Some (ColumnExpression ''lat'' []))
              (Some (ColumnExpression ''long'' [])) (PyInt 5),
            ElseLevel]"
    by (simp add: PostcodeComparison_create_comparison_levels_def PostcodeComparison_init_def
        PostcodeComparison_defaults_def Let_def getattr_def subscript_def regex_extract_def)
  have p': "\<exists>rest. PostcodeComparison_create_comparison_levels
       (PostcodeComparison_init (ColStr ''postcode'') ?pkw')
     = Inr (NullLevel (ColumnExpression ''postcode'' []) None None # rest)"
    using invalid_as_null_defaults[where pkw = ?pkw' and pcol = "ColStr ''postcode''"] km'
    by (simp add: PostcodeComparison_defaults_def)
  obtain ec where ec: "EmailComparison_init (ColStr ''email'') ?ekw = Inr ec"
    by (simp add: EmailComparison_init_def EmailComparison_defaults_def fuzzy_levels_def Let_def)
  obtain ec' where ec': "EmailComparison_init (ColStr ''email'') EmailComparison_defaults = Inr ec'"
    using EmailComparison_defaults_Inr by blast
  have e: "EmailComparison.valid_email_regex ec = Some DEFAULT_EMAIL_REGEX
         \<and> (\<exists>rest. EmailComparison_create_comparison_levels ec =
              Inr (NullLevel (ColumnExpression ''email'' []) (Some DEFAULT_EMAIL_REGEX) None
                   # rest))"
    using invalid_as_null_defaults[where ekw = ?ekw and ecol = "ColStr ''email''" and ec = ec] ec
    by (simp add: EmailComparison_defaults_def)
  have e': "EmailComparison.valid_email_regex ec' = None
         \<and> (\<exists>rest. EmailComparison_create_comparison_levels ec' =
              Inr (NullLevel (ColumnExpression ''email'' []) None None # rest))"
    using invalid_as_null_defaults
      [where ekw = EmailComparison_defaults and ecol = "ColStr ''email''" and ec = ec'] ec'
    by (simp add: EmailComparison_defaults_def)
  show ?thesis
    using km plv p' ec e ec' e' by blast
qed

text \<open>
  C9. When \<open>km_thresholds\<close> is false (the empty list of the default, or zero), the
  constructor of \<open>PostcodeComparison\<close> never sets the attribute \<open>km_thresholds\<close>, and
  \<open>create_comparison_levels\<close> and \<open>create_description\<close> both raise \<open>AttributeError\<close> on
  reading it.
\<close>

theorem postcode_km_thresholds_never_set:
  assumes "\<not> truthy_arg (PostcodeComparison_kwargs.km_thresholds kw)"
  shows "PostcodeComparison.km_thresholds (PostcodeComparison_init col kw) = None
     \<and> PostcodeComparison_create_comparison_levels (PostcodeComparison_init col kw)
         = Inl (AttributeError ''km_thresholds'')
     \<and> PostcodeComparison_create_description str (PostcodeComparison_init col kw)
         = Inl (AttributeError ''km_thresholds'')"
  using assms
  by (simp add: PostcodeComparison_init_def PostcodeComparison_create_comparison_levels_def
      PostcodeComparison_create_description_def Let_def getattr_def subscript_def)

text \<open>
  The default arguments, and \<open>km_thresholds=0\<close>.
\<close>

theorem postcode_km_thresholds_never_set_witness:
  "\<not> truthy_arg (PostcodeComparison_kwargs.km_thresholds PostcodeComparison_defaults)
   \<and> PostcodeComparison.km_thresholds
       (PostcodeComparison_init (ColStr ''postcode'') PostcodeComparison_defaults) = None
   \<and> PostcodeComparison_create_comparison_levels
       (PostcodeComparison_init (ColStr ''postcode'') PostcodeComparison_defaults)
       = Inl (AttributeError ''km_thresholds'')
   \<and> (\<forall>str. PostcodeComparison_create_description str
       (PostcodeComparison_init (ColStr ''postcode'') PostcodeComparison_defaults)
       = Inl (AttributeError ''km_thresholds''))
   \<and> \<not> truthy_arg (PostcodeComparison_kwargs.km_thresholds
          (PostcodeComparison_defaults
             \<lparr>PostcodeComparison_kwargs.km_thresholds := One (PyInt 0)\<rparr>))
   \<and> PostcodeComparison_create_comparison_levels
       (PostcodeComparison_init (ColStr ''postcode'')
          (PostcodeComparison_defaults
             \<lparr>PostcodeComparison_kwargs.km_thresholds := One (PyInt 0)\<rparr>))
       = Inl (AttributeError ''km_thresholds'')"
proof -
  have d: "\<not> truthy_arg (PostcodeComparison_kwargs.km_thresholds PostcodeComparison_defaults)"
    by (simp add: PostcodeComparison_defaults_def)
  have z: "\<not> truthy_arg (PostcodeComparison_kwargs.km_thresholds
          (PostcodeComparison_defaults
             \<lparr>PostcodeComparison_kwargs.km_thresholds := One (PyInt 0)\<rparr>))"
    by simp
  show ?thesis
    using d z postcode_km_thresholds_never_set[OF d, of "ColStr ''postcode''"]
      postcode_km_thresholds_never_set[OF z, of "ColStr ''postcode''"]
    by simp
qed

section \<open>Descriptions\<close>

text \<open>
  C10. With a non-empty list of fuzzy thresholds, \<open>create_description\<close> of a
  \<open>DateComparison\<close> or \<open>EmailComparison\<close> is the fuzzy clause followed by the clauses built
  after it: the text accumulated for the exact-match levels (and the username level) is
  overwritten, so the result begins with the name of the fuzzy metric whatever
  \<open>include_exact_match_level\<close>, \<open>separate_1st_january\<close> and \<open>include_username_match_level\<close>
  are. With a true \<open>km_thresholds\<close>, the description of a \<open>PostcodeComparison\<close> is the km
  clause and \<open>anything else\<close>, whatever the four match flags are.
\<close>

theorem description_overwritten_by_fuzzy_clause:
  fixes dkw :: DateComparison_kwargs and ekw :: EmailComparison_kwargs
    and pkw :: PostcodeComparison_kwargs
  defines "fts \<equiv> ensure_is_iterable (DateComparison_kwargs.fuzzy_thresholds dkw)"
    and "dts \<equiv> ensure_is_iterable (DateComparison_kwargs.datediff_thresholds dkw)"
    and "dms \<equiv> ensure_is_iterable (DateComparison_kwargs.datediff_metrics dkw)"
    and "efts \<equiv> ensure_is_iterable (EmailComparison_kwargs.fuzzy_thresholds ekw)"
    and "kms \<equiv> ensure_is_iterable (PostcodeComparison_kwargs.km_thresholds pkw)"
  shows
  "(DateComparison_init dcol dkw = Inr dc \<and> fts \<noteq> [] \<longrightarrow>
      DateComparison_create_description str title dc =
        Inr (DateComparison_kwargs.fuzzy_metric dkw @ '' at threshold''
             @ (if length fts > 1 then ''s'' else []) @ '' ''
             @ join '', '' (map str fts) @ '' vs. ''
             @ (if dts \<noteq> [] then
                  ''dates within the following threshold''
                  @ (if length dts > 1 then ''s'' else []) @ '' ''
                  @ join '', '' (map (\<lambda>(v, m). title m @ ''(s): '' @ str v) (zip dts dms))
                  @ '' vs. ''
                else [])
             @ ''anything else''))
   \<and> (EmailComparison_init ecol ekw = Inr ec \<and> efts \<noteq> [] \<longrightarrow>
      EmailComparison_create_description str ec =
        Inr (EmailComparison_kwargs.fuzzy_metric ekw
             @ (if EmailComparison_kwargs.include_username_fuzzy_level ekw
                then '' on username at threshold'' else '' at threshold'')
             @ (if length efts > 1 then ''s'' else []) @ '' ''
             @ join '', '' (map str efts) @ '' vs. ''
             @ (if EmailComparison_kwargs.include_domain_match_level ekw
                then ''Domain-only match vs. '' else [])
             @ ''anything else''))
   \<and> (truthy_arg (PostcodeComparison_kwargs.km_thresholds pkw) \<longrightarrow>
      PostcodeComparison_create_description str (PostcodeComparison_init pcol pkw) =
        Inr (''km distance within threshold''
             @ (if length kms > 1 then ''s'' else []) @ '' ''
             @ join '', '' (map str kms) @ '' vs. ''
             @ ''anything else''))"
proof (intro conjI impI; (elim conjE)?)
  assume init: "DateComparison_init dcol dkw = Inr dc" and ne: "fts \<noteq> []"
  show "DateComparison_create_description str title dc =
        Inr (DateComparison_kwargs.fuzzy_metric dkw @ '' at threshold''
             @ (if length fts > 1 then ''s'' else []) @ '' ''
             @ join '', '' (map str fts) @ '' vs. ''
             @ (if dts \<noteq> [] then
                  ''dates within the following threshold''
                  @ (if length dts > 1 then ''s'' else []) @ '' ''
                  @ join '', '' (map (\<lambda>(v, m). title m @ ''(s): '' @ str v) (zip dts dms))
                  @ '' vs. ''
                else [])
             @ ''anything else'')"
    unfolding DateComparison_init_Inr(1)[OF init]
    using ne
    by (simp add: DateComparison_create_description_def Let_def getattr_def
        fts_def dts_def dms_def)
next
  assume init: "EmailComparison_init ecol ekw = Inr ec" and ne: "efts \<noteq> []"
  show "EmailComparison_create_description str ec =
        Inr (EmailComparison_kwargs.fuzzy_metric ekw
             @ (if EmailComparison_kwargs.include_username_fuzzy_level ekw
                then '' on username at threshold'' else '' at threshold'')
             @ (if length efts > 1 then ''s'' else []) @ '' ''
             @ join '', '' (map str efts) @ '' vs. ''
             @ (if EmailComparison_kwargs.include_domain_match_level ekw
                then ''Domain-only match vs. '' else [])
             @ ''anything else'')"
    unfolding EmailComparison_init_Inr(1)[OF init]
    using ne
    by (simp add: EmailComparison_create_description_def Let_def getattr_def efts_def)
next
  assume km: "truthy_arg (PostcodeComparison_kwargs.km_thresholds pkw)"
  show "PostcodeComparison_create_description str (PostcodeComparison_init pcol pkw) =
        Inr (''km distance within threshold''
             @ (if length kms > 1 then ''s'' else []) @ '' ''
             @ join '', '' (map str kms) @ '' vs. ''
             @ ''anything else'')"
    using km truthy_arg_nonempty[OF km]
    by (simp add: PostcodeComparison_create_description_def PostcodeComparison_init_def
        Let_def getattr_def kms_def)
qed

text \<open>
  The three descriptions with the exact-match levels switched on; none mentions them.
\<close>

theorem description_overwritten_by_fuzzy_clause_witness:
  "(\<exists>dc. DateComparison_init (ColStr ''dob'')
            (DateComparison_defaults\<lparr>DateComparison_kwargs.separate_1st_january := True\<rparr>)
            = Inr dc
       \<and> DateComparison.exact_match dc \<and> DateComparison.separate_1st_january dc
       \<and> (\<forall>str title.
            DateComparison_create_description str title dc =
              Inr (''damerau_levenshtein at threshold '' @ str (PyInt 1) @ '' vs. ''
                   @ ''dates within the following thresholds ''
                   @ title ''month'' @ ''(s): '' @ str (PyInt 1) @ '', ''
                   @ title ''year'' @ ''(s): '' @ str (PyInt 1) @ '', ''
                   @ title ''year'' @ ''(s): '' @ str (PyInt 10) @ '' vs. ''
                   @ ''anything else'')))
   \<and> (\<exists>ec. EmailComparison_init (ColStr ''email'') EmailComparison_defaults = Inr ec
       \<and> EmailComparison.exact_match ec \<and> EmailComparison.username_match ec
       \<and> (\<forall>str.
            EmailComparison_create_description str ec =
              Inr (''jaro_winkler on username at threshold '' @ str (PyFloat 0.88) @ '' vs. ''
                   @ ''anything else'')))
   \<and> truthy_arg (PostcodeComparison_kwargs.km_thresholds
        (PostcodeComparison_defaults
           \<lparr>PostcodeComparison_kwargs.km_thresholds := Many [PyInt 5, PyInt 10]\<rparr>))
   \<and> PostcodeComparison.full_match
        (PostcodeComparison_init (ColStr ''postcode'')
          (PostcodeComparison_defaults
             \<lparr>PostcodeComparison_kwargs.km_thresholds := Many [PyInt 5, PyInt 10]\<rparr>))
   \<and> (\<forall>str.
        PostcodeComparison_create_description str
          (PostcodeComparison_init (ColStr ''postcode'')
            (PostcodeComparison_defaults
               \<lparr>PostcodeComparison_kwargs.km_thresholds := Many [PyInt 5, PyInt 10]\<rparr>)) =
          Inr (''km distance within thresholds '' @ str (PyInt 5) @ '', '' @ str (PyInt 10)
               @ '' vs. '' @ ''anything else''))"
proof -
  let ?dkw = "DateComparison_defaults\<lparr>DateComparison_kwargs.separate_1st_january := True\<rparr>"
  let ?pkw = "PostcodeComparison_defaults
               \<lparr>PostcodeComparison_kwargs.km_thresholds := Many [PyInt 5, PyInt 10]\<rparr>"
  obtain dc where dc: "DateComparison_init (ColStr ''dob'') ?dkw = Inr dc"
    by (simp add: DateComparison_init_def DateComparison_defaults_def fuzzy_levels_def Let_def)
  obtain ec where ec: "EmailComparison_init (ColStr ''email'') EmailComparison_defaults = Inr ec"
    using EmailComparison_defaults_Inr by blast
  have km: "truthy_arg (PostcodeComparison_kwargs.km_thresholds ?pkw)" by simp
  have dflags: "DateComparison.exact_match dc \<and> DateComparison.separate_1st_january dc"
    using DateComparison_init_Inr(1)[OF dc] by (simp add: DateComparison_defaults_def)
  have eflags: "EmailComparison.exact_match ec \<and> EmailComparison.username_match ec"
    using EmailComparison_init_Inr(1)[OF ec] by (simp add: EmailComparison_defaults_def)
  have pflag: "PostcodeComparison.full_match (PostcodeComparison_init (ColStr ''postcode'') ?pkw)"
    by (simp add: PostcodeComparison_init_def PostcodeComparison_defaults_def Let_def
        split: prod.splits)
  note th = description_overwritten_by_fuzzy_clause
    [where dcol = "ColStr ''dob''" and dkw = ?dkw and dc = dc
       and ecol = "ColStr ''email''" and ekw = EmailComparison_defaults and ec = ec
       and pcol = "ColStr ''postcode''" and pkw = ?pkw]
  have d: "DateComparison_create_description str title dc =
              Inr (''damerau_levenshtein at threshold '' @ str (PyInt 1) @ '' vs. ''
                   @ ''dates within the following thresholds ''
                   @ title ''month'' @ ''(s): '' @ str (PyInt 1) @ '', ''
                   @ title ''year'' @ ''(s): '' @ str (PyInt 1) @ '', ''
                   @ title ''year'' @ ''(s): '' @ str (PyInt 10) @ '' vs. ''
                   @ ''anything else'')" for str title
    using th[where str = str and title = title] dc
    by (simp add: DateComparison_defaults_def)
  have e: "EmailComparison_create_description str ec =
              Inr (''jaro_winkler on username at threshold '' @ str (PyFloat 0.88) @ '' vs. ''
                   @ ''anything else'')" for str
    using th[where str = str] ec
    by (simp add: EmailComparison_defaults_def)
  have p: "PostcodeComparison_create_description str
          (PostcodeComparison_init (ColStr ''postcode'') ?pkw) =
          Inr (''km distance within thresholds '' @ str (PyInt 5) @ '', '' @ str (PyInt 10)
               @ '' vs. '' @ ''anything else'')" for str
    using th[where str = str] km
    by simp
  show ?thesis
    using dc dflags d ec eflags e km pflag p by blast
qed

section \<open>Blocking rules: normalisation\<close>

text \<open>
  C3 (as amended). \<open>to_blocking_rule_creator\<close> turns a dict into the \<open>CustomRule\<close> built from
  its entries as keyword arguments and a string into the \<open>CustomRule\<close> built from it as the
  positional argument; every other input, whatever its type, is returned unchanged and no
  error is raised.
\<close>

theorem to_blocking_rule_creator_normalises:
  "to_blocking_rule_creator (PyDict kw) = Inr (PyObj (CustomRule [] kw))
   \<and> to_blocking_rule_creator (PyStr s) = Inr (PyObj (CustomRule [PyStr s] []))
   \<and> (\<not> is_dict x \<and> \<not> is_str x \<longrightarrow> to_blocking_rule_creator x = Inr x)"
  by (cases x) simp_all

text \<open>
  A dict, a string and a list: the first two become rules, the list is returned.
\<close>

theorem to_blocking_rule_creator_normalises_witness:
  "to_blocking_rule_creator (PyDict [(''blocking_rule'', PyStr ''l.a = r.a'')])
     = Inr (PyObj (CustomRule [] [(''blocking_rule'', PyStr ''l.a = r.a'')]))
   \<and> to_blocking_rule_creator (PyStr ''l.a = r.a'')
     = Inr (PyObj (CustomRule [PyStr ''l.a = r.a''] []))
   \<and> \<not> is_dict (PyList [] :: BlockingRuleCreator pyval)
   \<and> \<not> is_str (PyList [] :: BlockingRuleCreator pyval)
   \<and> to_blocking_rule_creator (PyList []) = Inr (PyList [])"
  using to_blocking_rule_creator_normalises
    [of "[(''blocking_rule'', PyStr ''l.a = r.a'')]" "''l.a = r.a''" "PyList []"]
  by simp

text \<open>
  The claim as the specification states it fails: the integer \<open>5\<close> is neither a dict, a
  string nor a rule object, and it is returned, not rejected.
\<close>

theorem to_blocking_rule_creator_rejects_counterexample:
  "\<not> is_dict (PyNum (PyInt 5) :: BlockingRuleCreator pyval)
   \<and> \<not> is_str (PyNum (PyInt 5) :: BlockingRuleCreator pyval)
   \<and> \<not> is_obj (PyNum (PyInt 5) :: BlockingRuleCreator pyval)
   \<and> \<not> isl (to_blocking_rule_creator (PyNum (PyInt 5)))
   \<and> to_blocking_rule_creator (PyNum (PyInt 5)) = Inr (PyNum (PyInt 5))"
  by simp

end
